theory Spec2Isabelle
  imports Complex_Main
begin

section \<open>Churn prediction model: feature preparation and training\<close>

text \<open>
  A shallow embedding of \<^verbatim>\<open>src/src/churn_model.py\<close> (class
  \<^verbatim>\<open>ChurnPredictionModel\<close>). A pandas DataFrame is a list of column names together
  with a list of rows; every element-wise column assignment of the source is a map over the
  rows, in the order the source performs them. The scikit-learn functions the class calls
  are not part of the repository: they are parameters of the model.
\<close>

subsection \<open>Numeric cells\<close>

text \<open>
  A float64 cell. Finite values are idealised as reals (rounding, overflow to infinity and
  the sign of zero are not modelled); NaN and the two infinities are kept, because the
  source relies on how pandas treats them (\<^verbatim>\<open>fillna\<close>, \<^verbatim>\<open>dropna\<close>, comparisons with
  NaN, division by zero).
\<close>

datatype float64 = Fin real | PInf | NInf | NaN

fun num_add :: "float64 \<Rightarrow> float64 \<Rightarrow> float64" where
  "num_add NaN _ = NaN"
| "num_add _ NaN = NaN"
| "num_add (Fin a) (Fin b) = Fin (a + b)"
| "num_add PInf NInf = NaN"
| "num_add NInf PInf = NaN"
| "num_add PInf _ = PInf"
| "num_add _ PInf = PInf"
| "num_add NInf _ = NInf"
| "num_add _ NInf = NInf"

fun num_div :: "float64 \<Rightarrow> float64 \<Rightarrow> float64" where
  "num_div NaN _ = NaN"
| "num_div _ NaN = NaN"
| "num_div (Fin a) (Fin b) =
     (if b \<noteq> 0 then Fin (a / b)
      else if a = 0 then NaN
      else if 0 < a then PInf else NInf)"
| "num_div (Fin a) _ = Fin 0"
| "num_div PInf (Fin b) = (if 0 \<le> b then PInf else NInf)"
| "num_div NInf (Fin b) = (if 0 \<le> b then NInf else PInf)"
| "num_div _ _ = NaN"

fun num_sq :: "float64 \<Rightarrow> float64" where
  "num_sq (Fin a) = Fin (a * a)"
| "num_sq PInf = PInf"
| "num_sq NInf = PInf"
| "num_sq NaN = NaN"

fun num_log10 :: "float64 \<Rightarrow> float64" where
  "num_log10 (Fin a) = (if 0 < a then Fin (log 10 a) else if a = 0 then NInf else NaN)"
| "num_log10 PInf = PInf"
| "num_log10 NInf = NaN"
| "num_log10 NaN = NaN"

text \<open>Comparison \<^verbatim>\<open>a <= b\<close>: false as soon as one side is NaN.\<close>

fun num_le :: "float64 \<Rightarrow> float64 \<Rightarrow> bool" where
  "num_le NaN _ = False"
| "num_le _ NaN = False"
| "num_le NInf _ = True"
| "num_le _ PInf = True"
| "num_le (Fin a) (Fin b) = (a \<le> b)"
| "num_le _ _ = False"

definition num_ge :: "float64 \<Rightarrow> float64 \<Rightarrow> bool" where
  "num_ge a b = num_le b a"

definition isna :: "float64 \<Rightarrow> bool" where
  "isna x = (x = NaN)"

definition fillna :: "float64 \<Rightarrow> float64 \<Rightarrow> float64" where
  "fillna v x = (if isna x then v else x)"

text \<open>\<^verbatim>\<open>Series.clip(lower, upper)\<close>: NaN stays NaN.\<close>

fun clip :: "real \<Rightarrow> real \<Rightarrow> float64 \<Rightarrow> float64" where
  "clip lo hi (Fin a) = Fin (min hi (max lo a))"
| "clip lo hi PInf = Fin hi"
| "clip lo hi NInf = Fin lo"
| "clip lo hi NaN = NaN"

subsection \<open>Median of a column\<close>

text \<open>
  \<^verbatim>\<open>Series.median()\<close> skips NaN, sorts the remaining values and returns the middle one,
  or the mean of the two middle ones; it is NaN for a column without values.
\<close>

fun insort_num :: "float64 \<Rightarrow> float64 list \<Rightarrow> float64 list" where
  "insort_num x [] = [x]"
| "insort_num x (y # ys) = (if num_le x y then x # y # ys else y # insort_num x ys)"

definition sort_num :: "float64 list \<Rightarrow> float64 list" where
  "sort_num xs = foldr insort_num xs []"

definition median :: "float64 list \<Rightarrow> float64" where
  "median xs =
     (let vals = sort_num (filter (\<lambda>x. \<not> isna x) xs);
          n = length vals
      in if n = 0 then NaN
         else if odd n then vals ! (n div 2)
         else num_div (num_add (vals ! (n div 2 - 1)) (vals ! (n div 2))) (Fin 2))"

subsection \<open>Dates\<close>

text \<open>
  A cell of \<^verbatim>\<open>last_order_date\<close>. A value that pandas can read as a date is represented
  by the instant it denotes, in nanoseconds since the epoch; the text parser of pandas is
  not modelled. \<^verbatim>\<open>pd.to_datetime(..., errors="coerce")\<close> turns everything else into NaT.
\<close>

datatype date_cell = Date int | Missing | Unparseable string

fun to_datetime :: "date_cell \<Rightarrow> int option" where
  "to_datetime (Date t) = Some t"
| "to_datetime Missing = None"
| "to_datetime (Unparseable s) = None"

definition day_ns :: int where
  "day_ns = 86400000000000"

text \<open>\<^verbatim>\<open>Timestamp.normalize()\<close>: midnight of the same day.\<close>

definition normalize :: "int \<Rightarrow> int" where
  "normalize t = t - t mod day_ns"

text \<open>\<^verbatim>\<open>(ref - last).dt.days\<close>: whole days of the difference, rounded down; NaN for NaT.\<close>

fun dt_days :: "int \<Rightarrow> int option \<Rightarrow> float64" where
  "dt_days ref None = NaN"
| "dt_days ref (Some t) = Fin (of_int ((ref - t) div day_ns))"

subsection \<open>Binning\<close>

text \<open>
  \<^verbatim>\<open>pd.cut(x, bins, labels)\<close> with right-closed intervals: the label of the interval
  \<open>(lo, hi]\<close> that holds the value, NaN when no interval does.
\<close>

fun cut_bins :: "real list \<Rightarrow> real list \<Rightarrow> real \<Rightarrow> float64" where
  "cut_bins (lo # hi # bins) (l # labels) v =
     (if lo < v \<and> v \<le> hi then Fin l else cut_bins (hi # bins) labels v)"
| "cut_bins _ _ v = NaN"

fun cut :: "real list \<Rightarrow> real list \<Rightarrow> float64 \<Rightarrow> float64" where
  "cut bins labels (Fin v) = cut_bins bins labels v"
| "cut bins labels _ = NaN"

subsection \<open>Data frames\<close>

text \<open>
  One row of the table: the columns of the upstream aggregate and the columns derived by
  \<^verbatim>\<open>prepare_features\<close>. Which columns the table really has is recorded in
  \<open>columns\<close>; the field of a column that is absent is never read.
\<close>

record row =
  customer_id :: int
  order_count_12m :: float64
  revenue_12m :: float64
  last_order_date :: date_cell
  is_churned :: float64
  days_since_last_order :: float64
  avg_order_value :: float64
  log_revenue :: float64
  order_count_sq :: float64
  recency_bucket :: float64
  is_high_value :: float64
  orders_per_month :: float64
  revenue_per_order :: float64

record dataframe =
  columns :: "string list"
  rows :: "row list"

text \<open>\<^verbatim>\<open>DataFrame.empty\<close>: some axis has length zero.\<close>

definition df_empty :: "dataframe \<Rightarrow> bool" where
  "df_empty df = (columns df = [] \<or> rows df = [])"

definition has_column :: "string \<Rightarrow> dataframe \<Rightarrow> bool" where
  "has_column c df = (c \<in> set (columns df))"

text \<open>\<^verbatim>\<open>out[c] = ...\<close>: a new column goes last, an existing one is overwritten in place.\<close>

definition assign :: "string \<Rightarrow> (row \<Rightarrow> row) \<Rightarrow> dataframe \<Rightarrow> dataframe" where
  "assign c f df =
     \<lparr>columns = (if c \<in> set (columns df) then columns df else columns df @ [c]),
      rows = map f (rows df)\<rparr>"

datatype error = KeyError string | ValueError string | NotFittedError | AttributeError string

subsection \<open>The model object\<close>

text \<open>
  The attributes of a \<^verbatim>\<open>ChurnPredictionModel\<close>: the scaler (a \<^verbatim>\<open>StandardScaler\<close>,
  unfitted or holding its fitted parameters), the classifier (\<^verbatim>\<open>None\<close>, or a
  \<^verbatim>\<open>LogisticRegression\<close> that is unfitted or fitted), the feature names, the trained
  flag, and the files written below the output directory.
\<close>

datatype 'a estimator = Unfitted | Fitted 'a

record ('sp, 'clf) churn_model =
  scaler :: "'sp estimator"
  model :: "'clf estimator option"
  feature_names :: "string list"
  trained :: bool
  written :: "string list"

definition init :: "('sp, 'clf) churn_model" where
  "init = \<lparr>scaler = Unfitted, model = None, feature_names = [], trained = False, written = []\<rparr>"

definition feature_cols :: "string list" where
  "feature_cols =
     [''order_count_12m'', ''revenue_12m'', ''days_since_last_order'',
      ''avg_order_value'', ''log_revenue'', ''order_count_sq'', ''recency_bucket'',
      ''is_high_value'', ''orders_per_month'']"

subsection \<open>prepare_features\<close>

text \<open>Lines 63--69: the recency in days, 999 when there is no date.\<close>

definition derive_days :: "int \<Rightarrow> dataframe \<Rightarrow> dataframe" where
  "derive_days now out =
     (if has_column ''last_order_date'' out then
        let ref = normalize now
        in assign ''days_since_last_order''
             (\<lambda>r. r\<lparr>days_since_last_order :=
                      clip 0 999 (fillna (Fin 999)
                        (dt_days ref (to_datetime (last_order_date r))))\<rparr>) out
      else
        assign ''days_since_last_order'' (\<lambda>r. r\<lparr>days_since_last_order := Fin 999\<rparr>) out)"

text \<open>Lines 70--76: the other derived columns, one assignment after the other.\<close>

definition derive_columns :: "dataframe \<Rightarrow> dataframe" where
  "derive_columns out0 =
     (let out1 = assign ''avg_order_value''
            (\<lambda>r. r\<lparr>avg_order_value :=
                     num_div (revenue_12m r) (num_add (order_count_12m r) (Fin 1))\<rparr>) out0;
          out2 = assign ''log_revenue''
            (\<lambda>r. r\<lparr>log_revenue := num_log10 (num_add (revenue_12m r) (Fin 1))\<rparr>) out1;
          out3 = assign ''order_count_sq''
            (\<lambda>r. r\<lparr>order_count_sq := num_sq (order_count_12m r)\<rparr>) out2;
          out4 = assign ''recency_bucket''
            (\<lambda>r. r\<lparr>recency_bucket :=
                     cut [-1, 30, 60, 90, 999] [1, 2, 3, 4] (days_since_last_order r)\<rparr>) out3;
          med = median (map revenue_12m (rows out4));
          out5 = assign ''is_high_value''
            (\<lambda>r. r\<lparr>is_high_value := (if num_ge (revenue_12m r) med then Fin 1 else Fin 0)\<rparr>) out4;
          out6 = assign ''orders_per_month''
            (\<lambda>r. r\<lparr>orders_per_month := num_div (order_count_12m r) (Fin 12)\<rparr>) out5
      in assign ''revenue_per_order''
            (\<lambda>r. r\<lparr>revenue_per_order :=
                     num_div (revenue_12m r) (num_add (order_count_12m r) (Fin 1))\<rparr>) out6)"

text \<open>\<^verbatim>\<open>out.dropna(subset=["is_churned"])\<close>, for a table that has the column.\<close>

definition dropna_is_churned :: "dataframe \<Rightarrow> dataframe" where
  "dropna_is_churned out = out\<lparr>rows := filter (\<lambda>r. \<not> isna (is_churned r)) (rows out)\<rparr>"

text \<open>
  \<^verbatim>\<open>prepare_features(self, df)\<close>. \<open>now\<close> is the reading of the clock
  (\<^verbatim>\<open>pd.Timestamp("now")\<close>). The result is the returned table or the exception raised,
  together with the object after the call: \<^verbatim>\<open>feature_names_\<close> is assigned before
  \<^verbatim>\<open>dropna\<close> can raise.
\<close>

definition prepare_features ::
  "int \<Rightarrow> dataframe \<Rightarrow> ('sp, 'clf) churn_model \<Rightarrow> (error + dataframe) \<times> ('sp, 'clf) churn_model" where
  "prepare_features now df self =
     (if df_empty df then (Inr df, self)
      else
        let out0 = derive_days now df
        in if \<not> has_column ''revenue_12m'' out0 then (Inl (KeyError ''revenue_12m''), self)
           else if \<not> has_column ''order_count_12m'' out0 then (Inl (KeyError ''order_count_12m''), self)
           else
             let out = derive_columns out0;
                 available = filter (\<lambda>c. has_column c out) feature_cols;
                 self' = self\<lparr>feature_names := available\<rparr>
             in if \<not> has_column ''is_churned'' out then (Inl (KeyError ''is_churned''), self')
                else (Inr (dropna_is_churned out), self'))"


subsection \<open>The scikit-learn functions\<close>

text \<open>
  The library calls of \<^verbatim>\<open>train_model\<close> and \<^verbatim>\<open>train_and_evaluate\<close>, each with the
  keyword arguments the source fixes (\<^verbatim>\<open>test_size=0.25, random_state=42, stratify=y\<close>;
  \<^verbatim>\<open>class_weight="balanced", random_state=42, max_iter=1000\<close>; the two target names).
  Each returns its value or the exception it raises. A feature matrix is the list of its
  rows.
\<close>

type_synonym matrix = "float64 list list"

record ('sp, 'clf) sklearn =
  sk_train_test_split :: "matrix \<Rightarrow> float64 list \<Rightarrow> error + (matrix \<times> matrix \<times> float64 list \<times> float64 list)"
  sk_scaler_fit :: "matrix \<Rightarrow> error + 'sp"
  sk_scaler_transform :: "'sp \<Rightarrow> matrix \<Rightarrow> error + matrix"
  sk_logreg_fit :: "matrix \<Rightarrow> float64 list \<Rightarrow> error + 'clf"
  sk_predict :: "'clf \<Rightarrow> matrix \<Rightarrow> error + float64 list"
  sk_predict_proba :: "'clf \<Rightarrow> matrix \<Rightarrow> error + float64 list"
  sk_confusion_matrix :: "float64 list \<Rightarrow> float64 list \<Rightarrow> error + nat list list"
  sk_accuracy_score :: "float64 list \<Rightarrow> float64 list \<Rightarrow> error + float64"
  sk_roc_auc_score :: "float64 list \<Rightarrow> float64 list \<Rightarrow> error + float64"
  sk_classification_report :: "float64 list \<Rightarrow> float64 list \<Rightarrow> error + string"

subsection \<open>Calls as state transformers\<close>

text \<open>
  A call takes the object and returns the value it returns or the exception it raises,
  and the object as the call leaves it.
\<close>

type_synonym ('a, 'sp, 'clf) action =
  "('sp, 'clf) churn_model \<Rightarrow> (error + 'a) \<times> ('sp, 'clf) churn_model"

definition ret :: "'a \<Rightarrow> ('a, 'sp, 'clf) action" where
  "ret v = (\<lambda>self. (Inr v, self))"

definition call :: "error + 'a \<Rightarrow> ('a, 'sp, 'clf) action" where
  "call r = (\<lambda>self. (r, self))"

text \<open>A library call after another: the first exception ends the sequence.\<close>

definition attempt :: "error + 'a \<Rightarrow> ('a \<Rightarrow> error + 'b) \<Rightarrow> error + 'b" where
  "attempt r f = (case r of Inl e \<Rightarrow> Inl e | Inr v \<Rightarrow> f v)"

definition and_then :: "('a, 'sp, 'clf) action \<Rightarrow> ('a \<Rightarrow> ('b, 'sp, 'clf) action) \<Rightarrow> ('b, 'sp, 'clf) action" where
  "and_then m f = (\<lambda>self. case m self of (Inl e, self') \<Rightarrow> (Inl e, self') | (Inr v, self') \<Rightarrow> f v self')"

subsection \<open>train_model\<close>

text \<open>
  \<^verbatim>\<open>self.scaler.fit_transform(X)\<close>: \<^verbatim>\<open>fit\<close> resets the scaler before it computes the
  new parameters, so a failed fit leaves it unfitted.
\<close>

definition scaler_fit_transform :: "('sp, 'clf) sklearn \<Rightarrow> matrix \<Rightarrow> (matrix, 'sp, 'clf) action" where
  "scaler_fit_transform sk X =
     (\<lambda>self. case sk_scaler_fit sk X of
        Inl e \<Rightarrow> (Inl e, self\<lparr>scaler := Unfitted\<rparr>)
      | Inr p \<Rightarrow> (sk_scaler_transform sk p X, self\<lparr>scaler := Fitted p\<rparr>))"

text \<open>\<^verbatim>\<open>self.scaler.transform(X)\<close>: with the parameters of the last fit, which it keeps.\<close>

definition scaler_transform :: "('sp, 'clf) sklearn \<Rightarrow> matrix \<Rightarrow> (matrix, 'sp, 'clf) action" where
  "scaler_transform sk X =
     (\<lambda>self. case scaler self of
        Unfitted \<Rightarrow> (Inl NotFittedError, self)
      | Fitted p \<Rightarrow> (sk_scaler_transform sk p X, self))"

text \<open>
  \<^verbatim>\<open>train_model(self, X, y)\<close>; \<open>names\<close> is \<^verbatim>\<open>X.columns\<close>. The new, unfitted
  classifier is stored in \<^verbatim>\<open>self.model\<close> before it is fitted.
\<close>

definition train_model ::
  "('sp, 'clf) sklearn \<Rightarrow> string list \<Rightarrow> matrix \<Rightarrow> float64 list \<Rightarrow> ('clf, 'sp, 'clf) action" where
  "train_model sk names X y =
     and_then (\<lambda>self. (Inr (), self\<lparr>feature_names := names\<rparr>)) (\<lambda>_.
     and_then (scaler_fit_transform sk X) (\<lambda>X_scaled.
     and_then (\<lambda>self. (Inr (), self\<lparr>model := Some Unfitted\<rparr>)) (\<lambda>_.
     and_then (call (sk_logreg_fit sk X_scaled y)) (\<lambda>clf.
     (\<lambda>self. (Inr clf, self\<lparr>model := Some (Fitted clf), trained := True\<rparr>))))))"

subsection \<open>Plots and the result file\<close>

text \<open>
  Rendering is not modelled: a plot call that saves leaves the name of its file in
  \<open>written\<close>.
\<close>

definition plot_feature_importance :: "bool \<Rightarrow> (unit, 'sp, 'clf) action" where
  "plot_feature_importance save =
     (\<lambda>self.
        if \<not> trained self \<or> model self = None then (Inr (), self)
        else if model self = Some Unfitted then (Inl (AttributeError ''coef_''), self)
        else if save then (Inr (), self\<lparr>written := written self @ [''churn_feature_importance.png'']\<rparr>)
        else (Inr (), self))"

definition plot_confusion_matrix :: "nat list list \<Rightarrow> bool \<Rightarrow> (unit, 'sp, 'clf) action" where
  "plot_confusion_matrix confusion_mat save =
     (\<lambda>self.
        if save then (Inr (), self\<lparr>written := written self @ [''churn_confusion_matrix.png'']\<rparr>)
        else (Inr (), self))"

definition plot_roc_curve :: "float64 list \<Rightarrow> float64 list \<Rightarrow> float64 \<Rightarrow> bool \<Rightarrow> (unit, 'sp, 'clf) action" where
  "plot_roc_curve y_test y_pred_proba roc_auc save =
     (\<lambda>self.
        if save then (Inr (), self\<lparr>written := written self @ [''churn_roc_curve.png'']\<rparr>)
        else (Inr (), self))"

text \<open>The dict of results; the empty dict \<^verbatim>\<open>{}\<close> is \<open>None\<close>.\<close>

record results =
  accuracy :: float64
  roc_auc :: float64
  classification_report :: string
  confusion_matrix :: "nat list list"

definition save_model_results :: "results \<Rightarrow> (string, 'sp, 'clf) action" where
  "save_model_results res =
     (\<lambda>self. (Inr ''churn_model_results.txt'',
               self\<lparr>written := written self @ [''churn_model_results.txt'']\<rparr>))"

subsection \<open>train_and_evaluate\<close>

text \<open>
  \<^verbatim>\<open>prepared[c]\<close> for a numeric column. Only names of \<open>feature_cols\<close> are ever
  selected.
\<close>

definition cell :: "string \<Rightarrow> row \<Rightarrow> float64" where
  "cell c r =
     (if c = ''order_count_12m'' then order_count_12m r
      else if c = ''revenue_12m'' then revenue_12m r
      else if c = ''days_since_last_order'' then days_since_last_order r
      else if c = ''avg_order_value'' then avg_order_value r
      else if c = ''log_revenue'' then log_revenue r
      else if c = ''order_count_sq'' then order_count_sq r
      else if c = ''recency_bucket'' then recency_bucket r
      else if c = ''is_high_value'' then is_high_value r
      else if c = ''orders_per_month'' then orders_per_month r
      else if c = ''revenue_per_order'' then revenue_per_order r
      else if c = ''is_churned'' then is_churned r
      else if c = ''customer_id'' then Fin (of_int (customer_id r))
      else NaN)"

text \<open>Line 244: \<^verbatim>\<open>X = prepared[feature_cols].fillna(0)\<close>.\<close>

definition feature_matrix :: "string list \<Rightarrow> dataframe \<Rightarrow> matrix" where
  "feature_matrix cols prepared = map (\<lambda>r. map (\<lambda>c. fillna (Fin 0) (cell c r)) cols) (rows prepared)"

text \<open>
  Lines 247--250: fit the scaler and the classifier on the training partition, then scale
  and score the test partition.
\<close>

definition fit_and_score ::
  "('sp, 'clf) sklearn \<Rightarrow> string list \<Rightarrow> matrix \<Rightarrow> float64 list \<Rightarrow> matrix
     \<Rightarrow> (float64 list \<times> float64 list, 'sp, 'clf) action" where
  "fit_and_score sk names X_train y_train X_test =
     and_then (train_model sk names X_train y_train) (\<lambda>_.
     and_then (scaler_transform sk X_test) (\<lambda>X_test_scaled.
     and_then (\<lambda>self. case model self of
                 Some (Fitted clf) \<Rightarrow> (sk_predict sk clf X_test_scaled, self)
               | _ \<Rightarrow> (Inl NotFittedError, self)) (\<lambda>y_pred.
     and_then (\<lambda>self. case model self of
                 Some (Fitted clf) \<Rightarrow> (sk_predict_proba sk clf X_test_scaled, self)
               | _ \<Rightarrow> (Inl NotFittedError, self)) (\<lambda>y_pred_proba.
     ret (y_pred, y_pred_proba)))))"

text \<open>
  Lines 251--254: the metrics of the test partition. \<^verbatim>\<open>len(np.unique(y_test))\<close> is the
  number of distinct labels.
\<close>

definition evaluate ::
  "('sp, 'clf) sklearn \<Rightarrow> float64 list \<Rightarrow> float64 list \<Rightarrow> float64 list \<Rightarrow> error + results" where
  "evaluate sk y_test y_pred y_pred_proba =
     attempt (sk_confusion_matrix sk y_test y_pred) (\<lambda>cm.
     attempt (sk_accuracy_score sk y_test y_pred) (\<lambda>acc.
     attempt (if 1 < length (remdups y_test) then sk_roc_auc_score sk y_test y_pred_proba
          else Inr (Fin 0)) (\<lambda>auc.
     attempt (sk_classification_report sk y_test y_pred) (\<lambda>report.
     Inr \<lparr>accuracy = acc, roc_auc = auc, classification_report = report,
          confusion_matrix = cm\<rparr>))))"

text \<open>Lines 255--265: the plots, the result file, the returned dict.\<close>

definition report_results :: "results \<Rightarrow> float64 list \<Rightarrow> float64 list \<Rightarrow> (results option, 'sp, 'clf) action" where
  "report_results res y_test y_pred_proba =
     and_then (plot_feature_importance True) (\<lambda>_.
     and_then (plot_confusion_matrix (confusion_matrix res) True) (\<lambda>_.
     and_then (plot_roc_curve y_test y_pred_proba (roc_auc res) True) (\<lambda>_.
     and_then (save_model_results res) (\<lambda>_.
     ret (Some res)))))"

text \<open>Lines 233--243: the feature columns, \<open>[]\<close> when none is found.\<close>

definition select_feature_cols :: "string list \<Rightarrow> dataframe \<Rightarrow> string list" where
  "select_feature_cols names prepared =
     (let cols = filter (\<lambda>c. has_column c prepared) names
      in if cols = [] then filter (\<lambda>c. has_column c prepared) feature_cols else cols)"

text \<open>
  \<^verbatim>\<open>train_and_evaluate(self, df)\<close>; \<open>now\<close> is the reading of the clock in
  \<^verbatim>\<open>prepare_features\<close>.
\<close>

definition train_and_evaluate ::
  "('sp, 'clf) sklearn \<Rightarrow> int \<Rightarrow> dataframe \<Rightarrow> (results option, 'sp, 'clf) action" where
  "train_and_evaluate sk now df =
     and_then (prepare_features now df) (\<lambda>prepared.
       if df_empty prepared \<or> \<not> has_column ''is_churned'' prepared then ret None
       else (\<lambda>self.
         let cols = select_feature_cols (feature_names self) prepared
         in if cols = [] then ret None self
            else
              (let X = feature_matrix cols prepared;
                   y = map is_churned (rows prepared)
               in and_then (call (sk_train_test_split sk X y)) (\<lambda>(X_train, X_test, y_train, y_test).
                  and_then (fit_and_score sk cols X_train y_train X_test) (\<lambda>(y_pred, y_pred_proba).
                  and_then (call (evaluate sk y_test y_pred y_pred_proba)) (\<lambda>res.
                  report_results res y_test y_pred_proba)))) self))"

subsection \<open>What prepare_features computes for one row\<close>

text \<open>
  The columns of the upstream aggregate that \<^verbatim>\<open>prepare_features\<close> reads without a
  check; a missing one is a \<^verbatim>\<open>KeyError\<close>.
\<close>

definition has_aggregate_columns :: "dataframe \<Rightarrow> bool" where
  "has_aggregate_columns df =
     (has_column ''order_count_12m'' df \<and> has_column ''revenue_12m'' df \<and> has_column ''is_churned'' df)"

text \<open>
  The value that lines 63--69 store in \<^verbatim>\<open>days_since_last_order\<close> for a row, and the
  row after all assignments of lines 63--76, given whether the table has a
  \<^verbatim>\<open>last_order_date\<close> column, the clock and the median of the batch. They are used to
  state the result of \<^verbatim>\<open>prepare_features\<close> row by row.
\<close>

definition days_of :: "bool \<Rightarrow> int \<Rightarrow> row \<Rightarrow> float64" where
  "days_of dated now r =
     (if dated then clip 0 999 (fillna (Fin 999) (dt_days (normalize now) (to_datetime (last_order_date r))))
      else Fin 999)"

definition derived :: "bool \<Rightarrow> int \<Rightarrow> float64 \<Rightarrow> row \<Rightarrow> row" where
  "derived dated now med r =
     r\<lparr>days_since_last_order := days_of dated now r,
       avg_order_value := num_div (revenue_12m r) (num_add (order_count_12m r) (Fin 1)),
       log_revenue := num_log10 (num_add (revenue_12m r) (Fin 1)),
       order_count_sq := num_sq (order_count_12m r),
       recency_bucket := cut [-1, 30, 60, 90, 999] [1, 2, 3, 4] (days_of dated now r),
       is_high_value := (if num_ge (revenue_12m r) med then Fin 1 else Fin 0),
       orders_per_month := num_div (order_count_12m r) (Fin 12),
       revenue_per_order := num_div (revenue_12m r) (num_add (order_count_12m r) (Fin 1))\<rparr>"

subsection \<open>Test tables\<close>

text \<open>
  Tables with the columns of the upstream aggregate. The derived fields of a row hold NaN
  until \<^verbatim>\<open>prepare_features\<close> assigns them.
\<close>

definition aggregate_columns :: "string list" where
  "aggregate_columns =
     [''customer_id'', ''order_count_12m'', ''revenue_12m'', ''last_order_date'', ''is_churned'']"

definition aggregate_row :: "int \<Rightarrow> real \<Rightarrow> real \<Rightarrow> date_cell \<Rightarrow> float64 \<Rightarrow> row" where
  "aggregate_row cid n v d lab =
     \<lparr>customer_id = cid, order_count_12m = Fin n, revenue_12m = Fin v, last_order_date = d,
      is_churned = lab, days_since_last_order = NaN, avg_order_value = NaN, log_revenue = NaN,
      order_count_sq = NaN, recency_bucket = NaN, is_high_value = NaN, orders_per_month = NaN,
      revenue_per_order = NaN\<rparr>"

definition aggregate_table :: "row list \<Rightarrow> dataframe" where
  "aggregate_table rs = \<lparr>columns = aggregate_columns, rows = rs\<rparr>"

definition clock :: int where
  "clock = 20000 * day_ns + 43200000000000"

definition dated_batch :: dataframe where
  "dated_batch = aggregate_table
     [aggregate_row 1 3 120 (Date (19995 * day_ns)) (Fin 0),
      aggregate_row 2 1 40 (Date (19905 * day_ns)) (Fin 1),
      aggregate_row 3 2 75 (Date (20003 * day_ns)) (Fin 0),
      aggregate_row 4 1 15 (Date (18000 * day_ns)) (Fin 1),
      aggregate_row 5 0 0 Missing (Fin 1),
      aggregate_row 6 4 300 (Unparseable ''n/a'') NaN]"

definition revenue_batch :: dataframe where
  "revenue_batch = aggregate_table
     (map (\<lambda>(cid, v). aggregate_row cid 1 v Missing (Fin 0))
        [(1, 10), (2, 20), (3, 30), (4, 40), (5, 50)])"

definition mixed_batch :: dataframe where
  "mixed_batch = aggregate_table
     [aggregate_row 1 1 10 Missing (Fin 0), aggregate_row 2 1 20 Missing (Fin 1),
      aggregate_row 3 1 5 Missing NaN, aggregate_row 4 1 1 Missing NaN]"

definition labelled_batch :: dataframe where
  "labelled_batch = aggregate_table
     [aggregate_row 1 1 10 Missing (Fin 0), aggregate_row 2 1 20 Missing (Fin 1)]"

definition small_batch :: dataframe where
  "small_batch = aggregate_table
     [aggregate_row 1 1 10 (Date (19995 * day_ns)) (Fin 0),
      aggregate_row 2 5 70 (Date (19905 * day_ns)) (Fin 1),
      (aggregate_row 3 1 0 Missing (Fin 0))\<lparr>revenue_12m := NaN\<rparr>,
      aggregate_row 4 2 20 Missing (Fin 0),
      aggregate_row 5 3 30 Missing (Fin 0),
      aggregate_row 6 1 40 Missing (Fin 0),
      aggregate_row 7 2 50 Missing (Fin 0),
      aggregate_row 8 3 60 Missing (Fin 1)]"

definition one_class_batch :: dataframe where
  "one_class_batch = aggregate_table
     [aggregate_row 1 1 10 Missing (Fin 0),
      aggregate_row 2 1 20 Missing (Fin 0),
      aggregate_row 3 1 30 Missing (Fin 0),
      aggregate_row 4 2 40 Missing (Fin 0),
      aggregate_row 5 3 50 Missing (Fin 0),
      aggregate_row 6 1 60 Missing (Fin 0),
      aggregate_row 7 2 70 Missing (Fin 1),
      aggregate_row 8 3 80 Missing (Fin 1)]"

text \<open>The feature matrices expected for \<open>small_batch\<close> and \<open>one_class_batch\<close>.\<close>

definition small_batch_X :: matrix where
  "small_batch_X =
     [[Fin 1, Fin 10, Fin 5, Fin 5, Fin (log 10 11), Fin 1, Fin 1, Fin 0, Fin (1 / 12)],
      [Fin 5, Fin 70, Fin 95, Fin (35 / 3), Fin (log 10 71), Fin 25, Fin 4, Fin 1, Fin (5 / 12)],
      [Fin 1, Fin 0, Fin 999, Fin 0, Fin 0, Fin 1, Fin 4, Fin 0, Fin (1 / 12)],
      [Fin 2, Fin 20, Fin 999, Fin (20 / 3), Fin (log 10 21), Fin 4, Fin 4, Fin 0, Fin (1 / 6)],
      [Fin 3, Fin 30, Fin 999, Fin (15 / 2), Fin (log 10 31), Fin 9, Fin 4, Fin 0, Fin (1 / 4)],
      [Fin 1, Fin 40, Fin 999, Fin 20, Fin (log 10 41), Fin 1, Fin 4, Fin 1, Fin (1 / 12)],
      [Fin 2, Fin 50, Fin 999, Fin (50 / 3), Fin (log 10 51), Fin 4, Fin 4, Fin 1, Fin (1 / 6)],
      [Fin 3, Fin 60, Fin 999, Fin 15, Fin (log 10 61), Fin 9, Fin 4, Fin 1, Fin (1 / 4)]]"

definition one_class_batch_X :: matrix where
  "one_class_batch_X =
     [[Fin 1, Fin 10, Fin 999, Fin 5, Fin (log 10 11), Fin 1, Fin 4, Fin 0, Fin (1 / 12)],
      [Fin 1, Fin 20, Fin 999, Fin 10, Fin (log 10 21), Fin 1, Fin 4, Fin 0, Fin (1 / 12)],
      [Fin 1, Fin 30, Fin 999, Fin 15, Fin (log 10 31), Fin 1, Fin 4, Fin 0, Fin (1 / 12)],
      [Fin 2, Fin 40, Fin 999, Fin (40 / 3), Fin (log 10 41), Fin 4, Fin 4, Fin 0, Fin (1 / 6)],
      [Fin 3, Fin 50, Fin 999, Fin (25 / 2), Fin (log 10 51), Fin 9, Fin 4, Fin 1, Fin (1 / 4)],
      [Fin 1, Fin 60, Fin 999, Fin 30, Fin (log 10 61), Fin 1, Fin 4, Fin 1, Fin (1 / 12)],
      [Fin 2, Fin 70, Fin 999, Fin (70 / 3), Fin (log 10 71), Fin 4, Fin 4, Fin 1, Fin (1 / 6)],
      [Fin 3, Fin 80, Fin 999, Fin 20, Fin (log 10 81), Fin 9, Fin 4, Fin 1, Fin (1 / 4)]]"

definition headless_batch :: dataframe where
  "headless_batch =
     \<lparr>columns = [''customer_id'', ''last_order_date'', ''is_churned''],
      rows = [aggregate_row 1 1 10 Missing (Fin 0)]\<rparr>"

definition unlabelled_batch :: dataframe where
  "unlabelled_batch = aggregate_table
     [aggregate_row 1 1 10 Missing NaN, aggregate_row 2 2 20 (Date (19995 * day_ns)) NaN]"

subsection \<open>A stand-in for scikit-learn\<close>

text \<open>
  The properties of \<^verbatim>\<open>train_and_evaluate\<close> below hold for every choice of the library
  functions. To run the model on examples, the library is instantiated by simple
  stand-ins: a split without shuffling that puts the first quarter of the rows into the
  test partition, a scaler that centres each column on its mean, a classifier that looks at
  the sign of the first scaled feature, and metrics that count. The stand-ins raise where
  the library raises on the inputs of the examples: the stratified split when a class has
  a single member or a partition is smaller than the number of classes, the scaler on an
  infinite value, the classifier on labels of one class, \<^verbatim>\<open>roc_auc_score\<close> when only
  one class is present, and \<^verbatim>\<open>classification_report\<close>, called with two target names,
  when the labels and the predictions together hold a number of classes other than two.
\<close>

fun is_inf :: "float64 \<Rightarrow> bool" where
  "is_inf PInf = True"
| "is_inf NInf = True"
| "is_inf _ = False"

fun num_neg :: "float64 \<Rightarrow> float64" where
  "num_neg (Fin a) = Fin (- a)"
| "num_neg PInf = NInf"
| "num_neg NInf = PInf"
| "num_neg NaN = NaN"

definition toy_split ::
  "matrix \<Rightarrow> float64 list \<Rightarrow> error + (matrix \<times> matrix \<times> float64 list \<times> float64 list)" where
  "toy_split X y =
     (let k = (length X + 3) div 4;
          classes = remdups y
      in if X = [] then Inl (ValueError ''no samples'')
         else if list_ex (\<lambda>c. length (filter (\<lambda>l. l = c) y) < 2) classes
           then Inl (ValueError ''The least populated class in y has only 1 member'')
         else if k < length classes \<or> length X - k < length classes
           then Inl (ValueError ''a partition is smaller than the number of classes'')
         else Inr (drop k X, take k X, drop k y, take k y))"

fun column_sums :: "matrix \<Rightarrow> float64 list" where
  "column_sums [] = []"
| "column_sums [r] = r"
| "column_sums (r # rs) = map (\<lambda>(a, b). num_add a b) (zip r (column_sums rs))"

definition toy_scaler_fit :: "matrix \<Rightarrow> error + float64 list" where
  "toy_scaler_fit X =
     (if X = [] then Inl (ValueError ''no samples'')
      else if list_ex (list_ex is_inf) X then Inl (ValueError ''Input contains infinity'')
      else Inr (map (\<lambda>s. num_div s (Fin (real (length X)))) (column_sums X)))"

definition toy_scaler_transform :: "float64 list \<Rightarrow> matrix \<Rightarrow> error + matrix" where
  "toy_scaler_transform mean X =
     (if list_ex (list_ex is_inf) X then Inl (ValueError ''Input contains infinity'')
      else Inr (map (\<lambda>r. map (\<lambda>(v, m). num_add v (num_neg m)) (zip r mean)) X))"

definition toy_logreg_fit :: "matrix \<Rightarrow> float64 list \<Rightarrow> error + unit" where
  "toy_logreg_fit X y =
     (if length (remdups y) < 2 then Inl (ValueError ''needs samples of at least 2 classes'')
      else Inr ())"

definition toy_predict :: "unit \<Rightarrow> matrix \<Rightarrow> error + float64 list" where
  "toy_predict clf X =
     Inr (map (\<lambda>r. case r of Fin v # _ \<Rightarrow> if 0 < v then Fin 1 else Fin 0 | _ \<Rightarrow> Fin 0) X)"

definition toy_predict_proba :: "unit \<Rightarrow> matrix \<Rightarrow> error + float64 list" where
  "toy_predict_proba clf X =
     Inr (map (\<lambda>r. case r of Fin v # _ \<Rightarrow> if 0 < v then Fin (3 / 4) else Fin (1 / 4)
               | _ \<Rightarrow> Fin (1 / 2)) X)"

definition toy_count :: "real \<Rightarrow> real \<Rightarrow> float64 list \<Rightarrow> float64 list \<Rightarrow> nat" where
  "toy_count a b y_true y_pred =
     length (filter (\<lambda>(t, p). t = Fin a \<and> p = Fin b) (zip y_true y_pred))"

definition toy_confusion_matrix :: "float64 list \<Rightarrow> float64 list \<Rightarrow> error + nat list list" where
  "toy_confusion_matrix y_true y_pred =
     Inr [[toy_count 0 0 y_true y_pred, toy_count 0 1 y_true y_pred],
          [toy_count 1 0 y_true y_pred, toy_count 1 1 y_true y_pred]]"

definition toy_accuracy_score :: "float64 list \<Rightarrow> float64 list \<Rightarrow> error + float64" where
  "toy_accuracy_score y_true y_pred =
     Inr (num_div (Fin (real (length (filter (\<lambda>(t, p). t = p) (zip y_true y_pred)))))
            (Fin (real (length y_true))))"

definition toy_roc_auc_score :: "float64 list \<Rightarrow> float64 list \<Rightarrow> error + float64" where
  "toy_roc_auc_score y_true y_score =
     (if length (remdups y_true) < 2 then Inl (ValueError ''Only one class present in y_true'')
      else Inr (Fin (1 / 2)))"

definition toy_classification_report :: "float64 list \<Rightarrow> float64 list \<Rightarrow> error + string" where
  "toy_classification_report y_true y_pred =
     (if length (remdups (y_true @ y_pred)) \<noteq> 2
      then Inl (ValueError ''Number of classes does not match size of target_names'')
      else Inr ''report'')"

definition toy_sklearn :: "(float64 list, unit) sklearn" where
  "toy_sklearn =
     \<lparr>sk_train_test_split = toy_split,
      sk_scaler_fit = toy_scaler_fit,
      sk_scaler_transform = toy_scaler_transform,
      sk_logreg_fit = toy_logreg_fit,
      sk_predict = toy_predict,
      sk_predict_proba = toy_predict_proba,
      sk_confusion_matrix = toy_confusion_matrix,
      sk_accuracy_score = toy_accuracy_score,
      sk_roc_auc_score = toy_roc_auc_score,
      sk_classification_report = toy_classification_report\<rparr>"

text \<open>A matrix with a missing value.\<close>

definition has_nan :: "matrix \<Rightarrow> bool" where
  "has_nan X = list_ex (list_ex isna) X"

text \<open>
  A library that refuses every matrix with a missing value: each function that takes a
  feature matrix raises \<open>e\<close> on such a matrix and is the given function otherwise.
\<close>

definition guard_nan :: "error \<Rightarrow> ('sp, 'clf) sklearn \<Rightarrow> ('sp, 'clf) sklearn" where
  "guard_nan e sk =
     sk\<lparr>sk_train_test_split := \<lambda>X y. if has_nan X then Inl e else sk_train_test_split sk X y,
        sk_scaler_fit := \<lambda>X. if has_nan X then Inl e else sk_scaler_fit sk X,
        sk_scaler_transform := \<lambda>p X. if has_nan X then Inl e else sk_scaler_transform sk p X,
        sk_logreg_fit := \<lambda>X y. if has_nan X then Inl e else sk_logreg_fit sk X y,
        sk_predict := \<lambda>clf X. if has_nan X then Inl e else sk_predict sk clf X,
        sk_predict_proba := \<lambda>clf X. if has_nan X then Inl e else sk_predict_proba sk clf X\<rparr>"

section \<open>Auxiliary facts\<close>

subsection \<open>Column assignments and the result of prepare_features\<close>

lemma rows_assign: "rows (assign c f df) = map f (rows df)"
  by (simp add: assign_def)

lemma has_column_assign: "has_column c' (assign c f df) = (c' = c \<or> has_column c' df)"
  by (auto simp: assign_def has_column_def)

lemma rows_derive_days:
  "rows (derive_days now df) =
     map (\<lambda>r. r\<lparr>days_since_last_order := days_of (has_column ''last_order_date'' df) now r\<rparr>) (rows df)"
  by (simp add: derive_days_def rows_assign days_of_def Let_def)

lemma has_column_derive_days:
  "has_column c (derive_days now df) = (c = ''days_since_last_order'' \<or> has_column c df)"
  by (simp add: derive_days_def has_column_assign Let_def)

lemma rows_derive_columns:
  "rows (derive_columns d) =
     map (\<lambda>r. r\<lparr>avg_order_value := num_div (revenue_12m r) (num_add (order_count_12m r) (Fin 1)),
       log_revenue := num_log10 (num_add (revenue_12m r) (Fin 1)),
       order_count_sq := num_sq (order_count_12m r),
       recency_bucket := cut [-1, 30, 60, 90, 999] [1, 2, 3, 4] (days_since_last_order r),
       is_high_value := (if num_ge (revenue_12m r) (median (map revenue_12m (rows d))) then Fin 1 else Fin 0),
       orders_per_month := num_div (order_count_12m r) (Fin 12),
       revenue_per_order := num_div (revenue_12m r) (num_add (order_count_12m r) (Fin 1))\<rparr>) (rows d)"
  by (simp add: derive_columns_def rows_assign Let_def comp_def)

lemma has_column_derive_columns:
  "has_column c (derive_columns d) =
     (c = ''revenue_per_order'' \<or> c = ''orders_per_month'' \<or> c = ''is_high_value'' \<or>
      c = ''recency_bucket'' \<or> c = ''order_count_sq'' \<or> c = ''log_revenue'' \<or>
      c = ''avg_order_value'' \<or> has_column c d)"
  by (simp add: derive_columns_def has_column_assign Let_def)

lemma has_column_derive_mono:
  "has_column c df \<Longrightarrow> has_column c (derive_days now df)"
  "has_column c d \<Longrightarrow> has_column c (derive_columns d)"
  by (simp_all add: has_column_derive_days has_column_derive_columns)

lemma rows_derived:
  "rows (derive_columns (derive_days now df)) =
     map (derived (has_column ''last_order_date'' df) now (median (map revenue_12m (rows df)))) (rows df)"
  by (simp add: rows_derive_columns rows_derive_days comp_def derived_def)

lemma available_all:
  assumes "has_column ''order_count_12m'' df" "has_column ''revenue_12m'' df"
  shows "filter (\<lambda>c. has_column c (derive_columns (derive_days now df))) feature_cols = feature_cols"
  using assms by (simp add: feature_cols_def has_column_derive_columns has_column_derive_days)

lemma prepare_features_nonempty:
  assumes "has_aggregate_columns df" "rows df \<noteq> []"
  shows "prepare_features now df self =
     (Inr \<lparr>columns = columns (derive_columns (derive_days now df)),
           rows = filter (\<lambda>r. \<not> isna (is_churned r))
             (map (derived (has_column ''last_order_date'' df) now (median (map revenue_12m (rows df)))) (rows df))\<rparr>,
      self\<lparr>feature_names := feature_cols\<rparr>)"
proof -
  from assms have ne: "\<not> df_empty df"
    by (auto simp: df_empty_def has_aggregate_columns_def has_column_def)
  from assms have c: "has_column ''order_count_12m'' df" "has_column ''revenue_12m'' df" "has_column ''is_churned'' df"
    by (simp_all add: has_aggregate_columns_def)
  have c1: "has_column ''order_count_12m'' (derive_days now df)" "has_column ''revenue_12m'' (derive_days now df)"
    using c by (simp_all add: has_column_derive_mono)
  have c2: "has_column ''is_churned'' (derive_columns (derive_days now df))"
    using c by (simp add: has_column_derive_mono)
  show ?thesis
    using ne c1 c2
    by (simp add: prepare_features_def Let_def available_all [OF c(1) c(2)] dropna_is_churned_def rows_derived)
qed

lemma prepare_features_empty: "df_empty df \<Longrightarrow> prepare_features now df self = (Inr df, self)"
  by (simp add: prepare_features_def)

lemma derived_raw [simp]:
  "customer_id (derived dated now med r) = customer_id r"
  "order_count_12m (derived dated now med r) = order_count_12m r"
  "revenue_12m (derived dated now med r) = revenue_12m r"
  "last_order_date (derived dated now med r) = last_order_date r"
  "is_churned (derived dated now med r) = is_churned r"
  by (simp_all add: derived_def)

lemma derived_new [simp]:
  "days_since_last_order (derived dated now med r) = days_of dated now r"
  "avg_order_value (derived dated now med r) = num_div (revenue_12m r) (num_add (order_count_12m r) (Fin 1))"
  "recency_bucket (derived dated now med r) = cut [-1, 30, 60, 90, 999] [1, 2, 3, 4] (days_of dated now r)"
  "is_high_value (derived dated now med r) = (if num_ge (revenue_12m r) med then Fin 1 else Fin 0)"
  "revenue_per_order (derived dated now med r) = num_div (revenue_12m r) (num_add (order_count_12m r) (Fin 1))"
  by (simp_all add: derived_def)

lemma prepare_features_returns:
  assumes "has_aggregate_columns df"
  shows "\<exists>out. prepare_features now df self =
            (Inr out, if rows df = [] then self else self\<lparr>feature_names := feature_cols\<rparr>) \<and>
          rows out = filter (\<lambda>r. \<not> isna (is_churned r))
             (map (derived (has_column ''last_order_date'' df) now (median (map revenue_12m (rows df)))) (rows df))"
proof (cases "rows df = []")
  case True
  then show ?thesis by (simp add: prepare_features_empty df_empty_def)
next
  case False
  then show ?thesis by (simp add: prepare_features_nonempty [OF assms])
qed

subsection \<open>The test tables\<close>

lemma has_aggregate_columns_table: "has_aggregate_columns (aggregate_table rs)"
  by (simp add: has_aggregate_columns_def has_column_def aggregate_table_def aggregate_columns_def)

lemma has_dates_table: "has_column ''last_order_date'' (aggregate_table rs)"
  by (simp add: has_column_def aggregate_table_def aggregate_columns_def)

lemma rows_table [simp]: "rows (aggregate_table rs) = rs"
  by (simp add: aggregate_table_def)

lemma aggregate_row_fields [simp]:
  "customer_id (aggregate_row cid n v d lab) = cid"
  "order_count_12m (aggregate_row cid n v d lab) = Fin n"
  "revenue_12m (aggregate_row cid n v d lab) = Fin v"
  "last_order_date (aggregate_row cid n v d lab) = d"
  "is_churned (aggregate_row cid n v d lab) = lab"
  by (simp_all add: aggregate_row_def)

lemma days_of_int:
  "\<exists>d::int. 0 \<le> d \<and> d \<le> 999 \<and> days_of dated now r = Fin (of_int d) \<and>
     d = (if dated then (case to_datetime (last_order_date r) of None \<Rightarrow> 999
                         | Some t \<Rightarrow> min 999 (max 0 ((normalize now - t) div day_ns)))
          else 999)"
proof (cases "dated")
  case False
  then show ?thesis by (simp add: days_of_def)
next
  case True
  show ?thesis
  proof (cases "to_datetime (last_order_date r)")
    case None
    with True show ?thesis by (simp add: days_of_def fillna_def isna_def)
  next
    case (Some t)
    with True show ?thesis by (simp add: days_of_def fillna_def isna_def min_def max_def)
  qed
qed

lemma prepare_featuresE:
  assumes "has_aggregate_columns df"
  obtains out where
    "prepare_features now df self =
       (Inr out, if rows df = [] then self else self\<lparr>feature_names := feature_cols\<rparr>)"
    "rows out = filter (\<lambda>r. \<not> isna (is_churned r))
       (map (derived (has_column ''last_order_date'' df) now (median (map revenue_12m (rows df)))) (rows df))"
  using prepare_features_returns [OF assms] by blast

lemma has_aggregate_columns_batches:
  "has_aggregate_columns dated_batch" "has_aggregate_columns revenue_batch"
  "has_aggregate_columns mixed_batch" "has_aggregate_columns labelled_batch"
  by (simp_all add: dated_batch_def revenue_batch_def mixed_batch_def labelled_batch_def
      has_aggregate_columns_table)

lemma filter_map_derived:
  "map f (filter (\<lambda>r. \<not> isna (is_churned r)) (map (derived dated now med) rs)) =
   map (\<lambda>r. f (derived dated now med r)) (filter (\<lambda>r. \<not> isna (is_churned r)) rs)"
  by (induction rs) simp_all

lemma days_of_range: "\<exists>v. days_of dated now r = Fin v \<and> 0 \<le> v \<and> v \<le> 999"
proof -
  from days_of_int [of dated now r] obtain d :: int where
    "0 \<le> d" "d \<le> 999" "days_of dated now r = Fin (of_int d)" by blast
  then show ?thesis by simp
qed

lemma cut_recency:
  assumes "0 \<le> v" "v \<le> 999"
  shows "cut [-1, 30, 60, 90, 999] [1, 2, 3, 4] (Fin v) =
     (if v \<le> 30 then Fin 1 else if v \<le> 60 then Fin 2 else if v \<le> 90 then Fin 3 else Fin 4)"
  using assms by simp

lemma derive_days_normalize:
  "normalize now1 = normalize now2 \<Longrightarrow> derive_days now1 df = derive_days now2 df"
  by (simp add: derive_days_def)

lemma fst_prepare_features:
  assumes "normalize now1 = normalize now2"
  shows "fst (prepare_features now1 df self1) = fst (prepare_features now2 df self2)"
  by (simp add: prepare_features_def Let_def derive_days_normalize [OF assms])

lemma prepared_batch:
  fixes self :: "('sp, 'clf) churn_model"
  obtains out where
    "prepare_features now (aggregate_table rs) self =
       (Inr out, if rs = [] then self else self\<lparr>feature_names := feature_cols\<rparr>)"
    "rows out = filter (\<lambda>r. \<not> isna (is_churned r))
       (map (derived True now (median (map revenue_12m rs))) rs)"
  using prepare_featuresE [OF has_aggregate_columns_table, of now rs self]
  by (simp add: has_dates_table) blast

subsection \<open>The median of finite values\<close>

lemma insort_num_Fin: "insort_num (Fin x) (map Fin ys) = map Fin (insort x ys)"
  by (induction ys) simp_all

lemma sort_num_Fin: "sort_num (map Fin vs) = map Fin (sort vs)"
  unfolding sort_num_def sort_key_def
  by (induction vs) (simp_all add: insort_num_Fin)

lemma median_finite:
  "median (map Fin vs) =
     (let s = sort vs; n = length vs
      in if n = 0 then NaN
         else if odd n then Fin (s ! (n div 2))
         else Fin ((s ! (n div 2 - 1) + s ! (n div 2)) / 2))"
proof -
  have f: "filter (\<lambda>x. \<not> isna x) (map Fin vs) = map Fin vs"
    by (induction vs) (simp_all add: isna_def)
  show ?thesis
  proof (cases "vs = []")
    case True
    then show ?thesis by (simp add: median_def sort_num_def)
  next
    case False
    define k where "k = length vs"
    from False have "0 < k" by (simp add: k_def)
    then have "k div 2 < k" "k div 2 - 1 < k" by arith+
    then have i: "length vs div 2 < length (sort vs)" "length vs div 2 - 1 < length (sort vs)"
      by (simp_all only: k_def length_sort)
    have n: "map Fin (sort vs) ! (length vs div 2) = Fin (sort vs ! (length vs div 2))"
      "map Fin (sort vs) ! (length vs div 2 - 1) = Fin (sort vs ! (length vs div 2 - 1))"
      using i by (simp_all only: nth_map)
    from False show ?thesis
      unfolding median_def f sort_num_Fin Let_def length_map length_sort n
      by simp
  qed
qed

lemma prepared_flags:
  assumes "has_aggregate_columns df"
  obtains out self' where
    "prepare_features now df self = (Inr out, self')"
    "rows out = filter (\<lambda>r. \<not> isna (is_churned r)) (rows (derive_columns (derive_days now df)))"
    "map customer_id (rows out) = map customer_id (filter (\<lambda>r. \<not> isna (is_churned r)) (rows df))"
    "map revenue_12m (rows out) = map revenue_12m (filter (\<lambda>r. \<not> isna (is_churned r)) (rows df))"
    "map is_high_value (rows out) =
       map (\<lambda>r. if num_ge (revenue_12m r) (median (map revenue_12m (rows df))) then Fin 1 else Fin 0)
         (filter (\<lambda>r. \<not> isna (is_churned r)) (rows df))"
proof -
  from prepare_featuresE [OF assms, of now self] obtain out where
    p: "prepare_features now df self =
          (Inr out, if rows df = [] then self else self\<lparr>feature_names := feature_cols\<rparr>)" and
    r: "rows out = filter (\<lambda>r. \<not> isna (is_churned r))
          (map (derived (has_column ''last_order_date'' df) now (median (map revenue_12m (rows df)))) (rows df))"
    by blast
  show ?thesis
  proof (rule that [OF p])
    show "rows out = filter (\<lambda>r. \<not> isna (is_churned r)) (rows (derive_columns (derive_days now df)))"
      by (simp add: r rows_derived)
  qed (simp_all add: r filter_map_derived)
qed

lemma median_dated_batch: "median (map revenue_12m (rows dated_batch)) = Fin (115 / 2)"
  by (simp add: dated_batch_def median_def sort_num_def isna_def)

lemma flags_example:
  fixes self :: "('sp, 'clf) churn_model"
  assumes "has_aggregate_columns df"
    and "map customer_id (filter (\<lambda>r. \<not> isna (is_churned r)) (rows df)) = ids"
    and "map (\<lambda>r. if num_ge (revenue_12m r) (median (map revenue_12m (rows df))) then Fin 1 else Fin 0)
           (filter (\<lambda>r. \<not> isna (is_churned r)) (rows df)) = flags"
  shows "\<exists>out self'. prepare_features now df self = (Inr out, self') \<and>
           map customer_id (rows out) = ids \<and> map is_high_value (rows out) = flags"
proof -
  from prepared_flags [OF assms(1), of now self] obtain out self' where
    "prepare_features now df self = (Inr out, self')"
    "map customer_id (rows out) = map customer_id (filter (\<lambda>r. \<not> isna (is_churned r)) (rows df))"
    "map is_high_value (rows out) =
       map (\<lambda>r. if num_ge (revenue_12m r) (median (map revenue_12m (rows df))) then Fin 1 else Fin 0)
         (filter (\<lambda>r. \<not> isna (is_churned r)) (rows df))"
    by blast
  then show ?thesis unfolding assms(2,3) by blast
qed

subsection \<open>The object after prepare_features\<close>

lemma snd_prepare_features:
  "snd (prepare_features now df self) = self \<or>
   (\<exists>names. snd (prepare_features now df self) = self\<lparr>feature_names := names\<rparr>)"
  by (auto simp: prepare_features_def Let_def)

lemma prepare_features_keeps:
  assumes "prepare_features now df self = (r, self')"
  shows "model self' = model self" "scaler self' = scaler self" "trained self' = trained self"
    "written self' = written self"
  using snd_prepare_features [of now df self] assms by auto

lemma train_and_evaluate_of_empty:
  assumes "prepare_features now df self = (Inr prepared, self')" "df_empty prepared"
  shows "train_and_evaluate sk now df self = (Inr None, self')"
  using assms by (simp add: train_and_evaluate_def and_then_def ret_def)

lemma prepare_features_empty_table:
  "prepare_features now (aggregate_table []) self = (Inr (aggregate_table []), self)"
  by (simp add: prepare_features_empty df_empty_def)

subsection \<open>Unfolding train_and_evaluate\<close>

lemma and_then_InrD:
  assumes "and_then m f s = (Inr v, s')"
  obtains u s1 where "m s = (Inr u, s1)" "f u s1 = (Inr v, s')"
  using assms by (auto simp: and_then_def split: prod.splits sum.splits)

lemma call_InrD: "call r s = (Inr v, s') \<Longrightarrow> r = Inr v \<and> s' = s"
  by (simp add: call_def)

lemma fit_and_score_unfold:
  "fit_and_score sk names X_train y_train X_test self =
     (case sk_scaler_fit sk X_train of
        Inl e \<Rightarrow> (Inl e, self\<lparr>feature_names := names, scaler := Unfitted\<rparr>)
      | Inr p \<Rightarrow>
         (case sk_scaler_transform sk p X_train of
            Inl e \<Rightarrow> (Inl e, self\<lparr>feature_names := names, scaler := Fitted p\<rparr>)
          | Inr X_scaled \<Rightarrow>
             (case sk_logreg_fit sk X_scaled y_train of
                Inl e \<Rightarrow> (Inl e, self\<lparr>feature_names := names, scaler := Fitted p, model := Some Unfitted\<rparr>)
              | Inr clf \<Rightarrow>
                 (case sk_scaler_transform sk p X_test of
                    Inl e \<Rightarrow> (Inl e, self\<lparr>feature_names := names, scaler := Fitted p,
                                         model := Some (Fitted clf), trained := True\<rparr>)
                  | Inr X_test_scaled \<Rightarrow>
                     (case sk_predict sk clf X_test_scaled of
                        Inl e \<Rightarrow> (Inl e, self\<lparr>feature_names := names, scaler := Fitted p,
                                             model := Some (Fitted clf), trained := True\<rparr>)
                      | Inr y_pred \<Rightarrow>
                         (case sk_predict_proba sk clf X_test_scaled of
                            Inl e \<Rightarrow> (Inl e, self\<lparr>feature_names := names, scaler := Fitted p,
                                                 model := Some (Fitted clf), trained := True\<rparr>)
                          | Inr y_pred_proba \<Rightarrow>
                             (Inr (y_pred, y_pred_proba),
                              self\<lparr>feature_names := names, scaler := Fitted p,
                                   model := Some (Fitted clf), trained := True\<rparr>)))))))"
  by (simp add: fit_and_score_def train_model_def scaler_fit_transform_def scaler_transform_def
      and_then_def call_def ret_def split: sum.splits)

lemma scaler_fit_and_score:
  "scaler (snd (fit_and_score sk names X_train y_train X_test self)) =
     (case sk_scaler_fit sk X_train of Inl e \<Rightarrow> Unfitted | Inr p \<Rightarrow> Fitted p)"
  by (simp add: fit_and_score_unfold split: sum.splits)

lemma fit_and_score_InrD:
  assumes "fit_and_score sk names X_train y_train X_test self = (Inr (y_pred, y_pred_proba), s')"
  obtains p X_scaled clf X_test_scaled where
    "sk_scaler_fit sk X_train = Inr p" "scaler s' = Fitted p"
    "sk_scaler_transform sk p X_train = Inr X_scaled"
    "sk_logreg_fit sk X_scaled y_train = Inr clf" "model s' = Some (Fitted clf)"
    "sk_scaler_transform sk p X_test = Inr X_test_scaled"
    "sk_predict sk clf X_test_scaled = Inr y_pred"
    "sk_predict_proba sk clf X_test_scaled = Inr y_pred_proba"
    "written s' = written self" "trained s'"
  using assms unfolding fit_and_score_unfold by (auto split: sum.splits)

lemma report_results_unfold:
  "report_results res y_test y_pred_proba self =
     (if \<not> trained self \<or> model self = None then
        (Inr (Some res), self\<lparr>written := written self @
           [''churn_confusion_matrix.png'', ''churn_roc_curve.png'', ''churn_model_results.txt'']\<rparr>)
      else if model self = Some Unfitted then (Inl (AttributeError ''coef_''), self)
      else (Inr (Some res), self\<lparr>written := written self @
           [''churn_feature_importance.png'', ''churn_confusion_matrix.png'',
            ''churn_roc_curve.png'', ''churn_model_results.txt'']\<rparr>))"
  by (simp add: report_results_def plot_feature_importance_def plot_confusion_matrix_def
      plot_roc_curve_def save_model_results_def and_then_def ret_def)

lemma report_results_InrD:
  assumes "report_results res y_test y_pred_proba s = (Inr r, s')"
  shows "r = Some res" "scaler s' = scaler s" "model s' = model s"
  using assms unfolding report_results_unfold by (auto split: if_splits)

lemma train_and_evaluate_SomeD:
  assumes "train_and_evaluate sk now df self = (Inr (Some res), self')"
  obtains prepared s1 X_train X_test y_train y_test y_pred y_pred_proba s2 where
    "prepare_features now df self = (Inr prepared, s1)"
    "\<not> df_empty prepared"
    "select_feature_cols (feature_names s1) prepared \<noteq> []"
    "sk_train_test_split sk (feature_matrix (select_feature_cols (feature_names s1) prepared) prepared)
       (map is_churned (rows prepared)) = Inr (X_train, X_test, y_train, y_test)"
    "fit_and_score sk (select_feature_cols (feature_names s1) prepared) X_train y_train X_test s1 =
       (Inr (y_pred, y_pred_proba), s2)"
    "evaluate sk y_test y_pred y_pred_proba = Inr res"
    "report_results res y_test y_pred_proba s2 = (Inr (Some res), self')"
proof -
  from assms obtain prepared s1 where
    p: "prepare_features now df self = (Inr prepared, s1)" and
    k: "(if df_empty prepared \<or> \<not> has_column ''is_churned'' prepared then ret None
         else (\<lambda>self.
           let cols = select_feature_cols (feature_names self) prepared
           in if cols = [] then ret None self
              else
                (let X = feature_matrix cols prepared;
                     y = map is_churned (rows prepared)
                 in and_then (call (sk_train_test_split sk X y)) (\<lambda>(X_train, X_test, y_train, y_test).
                    and_then (fit_and_score sk cols X_train y_train X_test) (\<lambda>(y_pred, y_pred_proba).
                    and_then (call (evaluate sk y_test y_pred y_pred_proba)) (\<lambda>res.
                    report_results res y_test y_pred_proba)))) self)) s1 = (Inr (Some res), self')"
    unfolding train_and_evaluate_def by (rule and_then_InrD)
  define cols where "cols = select_feature_cols (feature_names s1) prepared"
  from k have ne: "\<not> df_empty prepared" and c: "cols \<noteq> []"
    by (auto simp: ret_def cols_def Let_def split: if_splits)
  with k have k2: "and_then (call (sk_train_test_split sk (feature_matrix cols prepared) (map is_churned (rows prepared))))
       (\<lambda>(X_train, X_test, y_train, y_test).
          and_then (fit_and_score sk cols X_train y_train X_test) (\<lambda>(y_pred, y_pred_proba).
          and_then (call (evaluate sk y_test y_pred y_pred_proba)) (\<lambda>res.
          report_results res y_test y_pred_proba))) s1 = (Inr (Some res), self')"
    by (auto simp: ret_def cols_def Let_def split: if_splits)
  then obtain sp s1' where
    sp: "call (sk_train_test_split sk (feature_matrix cols prepared) (map is_churned (rows prepared))) s1 = (Inr sp, s1')" and
    k3: "(case sp of (X_train, X_test, y_train, y_test) \<Rightarrow>
          and_then (fit_and_score sk cols X_train y_train X_test) (\<lambda>(y_pred, y_pred_proba).
          and_then (call (evaluate sk y_test y_pred y_pred_proba)) (\<lambda>res.
          report_results res y_test y_pred_proba))) s1' = (Inr (Some res), self')"
    by (rule and_then_InrD)
  obtain X_train X_test y_train y_test where sp_eq: "sp = (X_train, X_test, y_train, y_test)"
    by (cases sp) auto
  from call_InrD [OF sp] have
    split: "sk_train_test_split sk (feature_matrix cols prepared) (map is_churned (rows prepared)) =
              Inr (X_train, X_test, y_train, y_test)" and s1': "s1' = s1"
    by (simp_all add: sp_eq)
  from k3 have k4: "and_then (fit_and_score sk cols X_train y_train X_test) (\<lambda>(y_pred, y_pred_proba).
          and_then (call (evaluate sk y_test y_pred y_pred_proba)) (\<lambda>res.
          report_results res y_test y_pred_proba)) s1 = (Inr (Some res), self')"
    by (simp add: sp_eq s1')
  then obtain yy s2 where
    fs: "fit_and_score sk cols X_train y_train X_test s1 = (Inr yy, s2)" and
    k5: "(case yy of (y_pred, y_pred_proba) \<Rightarrow>
          and_then (call (evaluate sk y_test y_pred y_pred_proba)) (\<lambda>res.
          report_results res y_test y_pred_proba)) s2 = (Inr (Some res), self')"
    by (rule and_then_InrD)
  obtain y_pred y_pred_proba where yy: "yy = (y_pred, y_pred_proba)" by (cases yy) auto
  from k5 have "and_then (call (evaluate sk y_test y_pred y_pred_proba)) (\<lambda>res.
          report_results res y_test y_pred_proba) s2 = (Inr (Some res), self')"
    by (simp add: yy)
  then obtain res0 s2' where
    ev: "call (evaluate sk y_test y_pred y_pred_proba) s2 = (Inr res0, s2')" and
    rr: "report_results res0 y_test y_pred_proba s2' = (Inr (Some res), self')"
    by (rule and_then_InrD)
  from call_InrD [OF ev] have ev': "evaluate sk y_test y_pred y_pred_proba = Inr res0" and s2': "s2' = s2"
    by simp_all
  from report_results_InrD(1) [OF rr] have r0: "res0 = res" by simp
  show ?thesis
    using that [OF p ne c [unfolded cols_def] split [unfolded cols_def] fs [unfolded yy cols_def]
        ev' [unfolded r0] rr [unfolded r0 s2']] .
qed

lemma evaluate_unfold:
  "evaluate sk y_test y_pred y_pred_proba =
     (case sk_confusion_matrix sk y_test y_pred of
        Inl e \<Rightarrow> Inl e
      | Inr cm \<Rightarrow>
         (case sk_accuracy_score sk y_test y_pred of
            Inl e \<Rightarrow> Inl e
          | Inr acc \<Rightarrow>
             (case (if 1 < length (remdups y_test) then sk_roc_auc_score sk y_test y_pred_proba
                    else Inr (Fin 0)) of
                Inl e \<Rightarrow> Inl e
              | Inr auc \<Rightarrow>
                 (case sk_classification_report sk y_test y_pred of
                    Inl e \<Rightarrow> Inl e
                  | Inr report \<Rightarrow>
                     Inr \<lparr>accuracy = acc, roc_auc = auc, classification_report = report,
                          confusion_matrix = cm\<rparr>))))"
  by (simp add: evaluate_def attempt_def)

subsection \<open>A run on a small table\<close>

lemma derived_rest [simp]:
  "log_revenue (derived dated now med r) = num_log10 (num_add (revenue_12m r) (Fin 1))"
  "order_count_sq (derived dated now med r) = num_sq (order_count_12m r)"
  "orders_per_month (derived dated now med r) = num_div (order_count_12m r) (Fin 12)"
  by (simp_all add: derived_def)

lemma cell_feature_cols:
  "map (\<lambda>c. cell c r) feature_cols =
     [order_count_12m r, revenue_12m r, days_since_last_order r, avg_order_value r,
      log_revenue r, order_count_sq r, recency_bucket r, is_high_value r, orders_per_month r]"
  by (simp add: feature_cols_def cell_def)

lemma feature_matrix_feature_cols:
  "feature_matrix feature_cols prepared =
     map (\<lambda>r. map (fillna (Fin 0))
       [order_count_12m r, revenue_12m r, days_since_last_order r, avg_order_value r,
        log_revenue r, order_count_sq r, recency_bucket r, is_high_value r, orders_per_month r])
       (rows prepared)"
  unfolding feature_matrix_def
  by (simp only: cell_feature_cols [symmetric] map_map comp_def)

lemma select_feature_cols_prepared:
  assumes "has_aggregate_columns df"
  shows "select_feature_cols feature_cols
           \<lparr>columns = columns (derive_columns (derive_days now df)), rows = rs\<rparr> = feature_cols"
proof -
  from assms have c: "has_column ''order_count_12m'' df" "has_column ''revenue_12m'' df"
    by (simp_all add: has_aggregate_columns_def)
  have h: "has_column c \<lparr>columns = columns (derive_columns (derive_days now df)), rows = rs\<rparr> =
             has_column c (derive_columns (derive_days now df))" for c
    by (simp add: has_column_def)
  have n: "feature_cols \<noteq> []" by (simp add: feature_cols_def)
  show ?thesis
    unfolding select_feature_cols_def h available_all [OF c] Let_def using n by simp
qed

lemma train_and_evaluate_nonempty:
  assumes c: "has_aggregate_columns df" and l: "\<exists>r \<in> set (rows df). \<not> isna (is_churned r)"
  obtains prepared where
    "prepare_features now df self = (Inr prepared, self\<lparr>feature_names := feature_cols\<rparr>)"
    "rows prepared = filter (\<lambda>r. \<not> isna (is_churned r))
       (map (derived (has_column ''last_order_date'' df) now (median (map revenue_12m (rows df)))) (rows df))"
    "select_feature_cols feature_cols prepared = feature_cols"
    "train_and_evaluate sk now df self =
       and_then (call (sk_train_test_split sk (feature_matrix feature_cols prepared)
                         (map is_churned (rows prepared))))
         (\<lambda>(X_train, X_test, y_train, y_test).
            and_then (fit_and_score sk feature_cols X_train y_train X_test) (\<lambda>(y_pred, y_pred_proba).
            and_then (call (evaluate sk y_test y_pred y_pred_proba)) (\<lambda>res.
            report_results res y_test y_pred_proba)))
         (self\<lparr>feature_names := feature_cols\<rparr>)"
proof -
  from l have ne: "rows df \<noteq> []" by auto
  define rs where "rs = filter (\<lambda>r. \<not> isna (is_churned r))
       (map (derived (has_column ''last_order_date'' df) now (median (map revenue_12m (rows df)))) (rows df))"
  define prepared where "prepared = \<lparr>columns = columns (derive_columns (derive_days now df)), rows = rs\<rparr>"
  have p: "prepare_features now df self = (Inr prepared, self\<lparr>feature_names := feature_cols\<rparr>)"
    unfolding prepared_def rs_def by (rule prepare_features_nonempty [OF c ne])
  from l have rne: "rs \<noteq> []"
    by (auto simp: rs_def filter_empty_conv)
  from c have "has_column ''is_churned'' (derive_columns (derive_days now df))"
    by (simp add: has_aggregate_columns_def has_column_derive_mono)
  then have ic: "has_column ''is_churned'' prepared"
    by (simp add: prepared_def has_column_def)
  then have e: "\<not> df_empty prepared" using rne
    by (auto simp: df_empty_def prepared_def has_column_def)
  have s: "select_feature_cols feature_cols prepared = feature_cols"
    unfolding prepared_def by (rule select_feature_cols_prepared [OF c])
  have n: "feature_cols \<noteq> []" by (simp add: feature_cols_def)
  have t: "train_and_evaluate sk now df self =
       and_then (call (sk_train_test_split sk (feature_matrix feature_cols prepared)
                         (map is_churned (rows prepared))))
         (\<lambda>(X_train, X_test, y_train, y_test).
            and_then (fit_and_score sk feature_cols X_train y_train X_test) (\<lambda>(y_pred, y_pred_proba).
            and_then (call (evaluate sk y_test y_pred y_pred_proba)) (\<lambda>res.
            report_results res y_test y_pred_proba)))
         (self\<lparr>feature_names := feature_cols\<rparr>)"
    unfolding train_and_evaluate_def using p e ic n
    by (simp add: and_then_def [of "prepare_features now df"] s Let_def)
  have r: "rows prepared = rs" by (simp add: prepared_def)
  show ?thesis by (rule that [OF p r [unfolded rs_def] s t])
qed

lemma small_batch_matrix:
  "map (\<lambda>r. map (fillna (Fin 0))
       [order_count_12m r, revenue_12m r, days_since_last_order r, avg_order_value r,
        log_revenue r, order_count_sq r, recency_bucket r, is_high_value r, orders_per_month r])
     (filter (\<lambda>r. \<not> isna (is_churned r))
       (map (derived True clock (median (map revenue_12m (rows small_batch)))) (rows small_batch))) = small_batch_X"
proof -
  have m: "median (map revenue_12m (rows small_batch)) = Fin 40"
    by (simp add: small_batch_def median_def sort_num_def isna_def)
  show ?thesis
    unfolding m
    by (simp add: small_batch_def small_batch_X_def isna_def fillna_def days_of_def clock_def normalize_def
        day_ns_def num_ge_def)
qed

lemma one_class_batch_matrix:
  "map (\<lambda>r. map (fillna (Fin 0))
       [order_count_12m r, revenue_12m r, days_since_last_order r, avg_order_value r,
        log_revenue r, order_count_sq r, recency_bucket r, is_high_value r, orders_per_month r])
     (filter (\<lambda>r. \<not> isna (is_churned r))
       (map (derived True clock (median (map revenue_12m (rows one_class_batch)))) (rows one_class_batch))) = one_class_batch_X"
proof -
  have m: "median (map revenue_12m (rows one_class_batch)) = Fin 45"
    by (simp add: one_class_batch_def median_def sort_num_def isna_def)
  show ?thesis
    unfolding m
    by (simp add: one_class_batch_def one_class_batch_X_def isna_def fillna_def days_of_def clock_def normalize_def
        day_ns_def num_ge_def)
qed


lemma toy_batch_run:
  fixes X :: matrix and y :: "float64 list"
  assumes c: "df = aggregate_table rs"
    and l: "\<exists>r \<in> set rs. \<not> isna (is_churned r)"
    and X: "map (\<lambda>r. map (fillna (Fin 0))
       [order_count_12m r, revenue_12m r, days_since_last_order r, avg_order_value r,
        log_revenue r, order_count_sq r, recency_bucket r, is_high_value r, orders_per_month r])
     (filter (\<lambda>r. \<not> isna (is_churned r))
       (map (derived True clock (median (map revenue_12m rs))) rs)) = X"
    and y: "map is_churned (filter (\<lambda>r. \<not> isna (is_churned r)) rs) = y"
  obtains prepared where
    "prepare_features clock df (init :: (float64 list, unit) churn_model) =
       (Inr prepared, init\<lparr>feature_names := feature_cols\<rparr>)"
    "\<not> df_empty prepared"
    "select_feature_cols (feature_names (init\<lparr>feature_names := feature_cols\<rparr> :: (float64 list, unit) churn_model)) prepared = feature_cols"
    "feature_matrix feature_cols prepared = X"
    "map is_churned (rows prepared) = y"
    "map revenue_12m (rows prepared) = map revenue_12m (filter (\<lambda>r. \<not> isna (is_churned r)) rs)"
    "train_and_evaluate toy_sklearn clock df (init :: (float64 list, unit) churn_model) =
       (case sk_train_test_split toy_sklearn X y of
          Inl e \<Rightarrow> (Inl e, init\<lparr>feature_names := feature_cols\<rparr>)
        | Inr (X_train, X_test, y_train, y_test) \<Rightarrow>
            (case fit_and_score toy_sklearn feature_cols X_train y_train X_test
                    (init\<lparr>feature_names := feature_cols\<rparr>) of
               (Inl e, s2) \<Rightarrow> (Inl e, s2)
             | (Inr (y_pred, y_pred_proba), s2) \<Rightarrow>
                 (case evaluate toy_sklearn y_test y_pred y_pred_proba of
                    Inl e \<Rightarrow> (Inl e, s2)
                  | Inr res \<Rightarrow> report_results res y_test y_pred_proba s2)))"
proof -
  have hc: "has_aggregate_columns df" unfolding c by (rule has_aggregate_columns_table)
  have d: "has_column ''last_order_date'' df" unfolding c by (rule has_dates_table)
  have l': "\<exists>r \<in> set (rows df). \<not> isna (is_churned r)" using l by (simp add: c)
  obtain prepared where
    p: "prepare_features clock df (init :: (float64 list, unit) churn_model) =
          (Inr prepared, init\<lparr>feature_names := feature_cols\<rparr>)" and
    r0: "rows prepared = filter (\<lambda>r. \<not> isna (is_churned r))
          (map (derived (has_column ''last_order_date'' df) clock
                 (median (map revenue_12m (rows df)))) (rows df))" and
    sel: "select_feature_cols feature_cols prepared = feature_cols" and
    t: "train_and_evaluate toy_sklearn clock df (init :: (float64 list, unit) churn_model) =
       and_then (call (sk_train_test_split toy_sklearn (feature_matrix feature_cols prepared)
                         (map is_churned (rows prepared))))
         (\<lambda>(X_train, X_test, y_train, y_test).
            and_then (fit_and_score toy_sklearn feature_cols X_train y_train X_test) (\<lambda>(y_pred, y_pred_proba).
            and_then (call (evaluate toy_sklearn y_test y_pred y_pred_proba)) (\<lambda>res.
            report_results res y_test y_pred_proba)))
         (init\<lparr>feature_names := feature_cols\<rparr>)"
    by (rule train_and_evaluate_nonempty [OF hc l'])
  have r: "rows prepared = filter (\<lambda>r. \<not> isna (is_churned r))
          (map (derived True clock (median (map revenue_12m rs))) rs)"
    using r0 d by (simp add: c)
  have X': "feature_matrix feature_cols prepared = X"
    unfolding feature_matrix_feature_cols r by (rule X)
  have y': "map is_churned (rows prepared) = y"
    unfolding r y [symmetric] by (simp add: filter_map_derived)
  have v: "map revenue_12m (rows prepared) = map revenue_12m (filter (\<lambda>r. \<not> isna (is_churned r)) rs)"
    unfolding r by (simp add: filter_map_derived)
  from l have "rows prepared \<noteq> []" unfolding r by (auto simp: filter_empty_conv)
  moreover from sel have "columns prepared \<noteq> []"
    by (auto simp: select_feature_cols_def has_column_def feature_cols_def Let_def)
  ultimately have ne: "\<not> df_empty prepared" by (simp add: df_empty_def)
  have fn: "feature_names (init\<lparr>feature_names := feature_cols\<rparr> :: (float64 list, unit) churn_model) = feature_cols"
    by simp
  have t': "train_and_evaluate toy_sklearn clock df (init :: (float64 list, unit) churn_model) =
       (case sk_train_test_split toy_sklearn X y of
          Inl e \<Rightarrow> (Inl e, init\<lparr>feature_names := feature_cols\<rparr>)
        | Inr (X_train, X_test, y_train, y_test) \<Rightarrow>
            (case fit_and_score toy_sklearn feature_cols X_train y_train X_test
                    (init\<lparr>feature_names := feature_cols\<rparr>) of
               (Inl e, s2) \<Rightarrow> (Inl e, s2)
             | (Inr (y_pred, y_pred_proba), s2) \<Rightarrow>
                 (case evaluate toy_sklearn y_test y_pred y_pred_proba of
                    Inl e \<Rightarrow> (Inl e, s2)
                  | Inr res \<Rightarrow> report_results res y_test y_pred_proba s2)))"
    unfolding t X' y'
    by (simp add: and_then_def call_def split: sum.splits prod.splits)
  show ?thesis
    by (rule that [OF p ne _ X' y' v t']) (simp only: fn sel)
qed


lemma small_batch_run:
  "\<exists>prepared s1 mean self'.
     prepare_features clock small_batch (init :: (float64 list, unit) churn_model) = (Inr prepared, s1) \<and>
     \<not> df_empty prepared \<and>
     map revenue_12m (rows prepared) =
       [Fin 10, Fin 70, NaN, Fin 20, Fin 30, Fin 40, Fin 50, Fin 60] \<and>
     feature_matrix (select_feature_cols (feature_names s1) prepared) prepared = small_batch_X \<and>
     map is_churned (rows prepared) = [Fin 0, Fin 1, Fin 0, Fin 0, Fin 0, Fin 0, Fin 0, Fin 1] \<and>
     sk_train_test_split toy_sklearn small_batch_X
       [Fin 0, Fin 1, Fin 0, Fin 0, Fin 0, Fin 0, Fin 0, Fin 1] =
       Inr (drop 2 small_batch_X, take 2 small_batch_X,
            [Fin 0, Fin 0, Fin 0, Fin 0, Fin 0, Fin 1], [Fin 0, Fin 1]) \<and>
     sk_scaler_fit toy_sklearn (drop 2 small_batch_X) = Inr mean \<and>
     train_and_evaluate toy_sklearn clock small_batch (init :: (float64 list, unit) churn_model) =
       (Inr (Some \<lparr>accuracy = Fin 1, roc_auc = Fin (1 / 2), classification_report = ''report'',
                   confusion_matrix = [[1, 0], [0, 1]]\<rparr>), self') \<and>
     scaler self' = Fitted mean \<and> model self' = Some (Fitted ()) \<and> trained self' \<and>
     feature_names self' = feature_cols \<and>
     written self' = [''churn_feature_importance.png'', ''churn_confusion_matrix.png'',
                      ''churn_roc_curve.png'', ''churn_model_results.txt'']"
proof -
  have l: "\<exists>r \<in> set (rows small_batch). \<not> isna (is_churned r)"
    by (simp add: small_batch_def isna_def)
  have yy: "map is_churned (filter (\<lambda>r. \<not> isna (is_churned r)) (rows small_batch)) =
              [Fin 0, Fin 1, Fin 0, Fin 0, Fin 0, Fin 0, Fin 0, Fin 1]"
    by (simp add: small_batch_def isna_def)
  have vv: "map revenue_12m (filter (\<lambda>r. \<not> isna (is_churned r)) (rows small_batch)) =
              [Fin 10, Fin 70, NaN, Fin 20, Fin 30, Fin 40, Fin 50, Fin 60]"
    by (simp add: small_batch_def isna_def)
  have tbl: "small_batch = aggregate_table (rows small_batch)"
    by (simp add: small_batch_def)
  obtain prepared where
    p: "prepare_features clock small_batch (init :: (float64 list, unit) churn_model) =
          (Inr prepared, init\<lparr>feature_names := feature_cols\<rparr>)" and
    ne: "\<not> df_empty prepared" and
    sel: "select_feature_cols (feature_names (init\<lparr>feature_names := feature_cols\<rparr> :: (float64 list, unit) churn_model)) prepared = feature_cols" and
    X: "feature_matrix feature_cols prepared = small_batch_X" and
    y: "map is_churned (rows prepared) = [Fin 0, Fin 1, Fin 0, Fin 0, Fin 0, Fin 0, Fin 0, Fin 1]" and
    v: "map revenue_12m (rows prepared) =
          map revenue_12m (filter (\<lambda>r. \<not> isna (is_churned r)) (rows small_batch))" and
    t: "train_and_evaluate toy_sklearn clock small_batch (init :: (float64 list, unit) churn_model) =
       (case sk_train_test_split toy_sklearn small_batch_X
               [Fin 0, Fin 1, Fin 0, Fin 0, Fin 0, Fin 0, Fin 0, Fin 1] of
          Inl e \<Rightarrow> (Inl e, init\<lparr>feature_names := feature_cols\<rparr>)
        | Inr (X_train, X_test, y_train, y_test) \<Rightarrow>
            (case fit_and_score toy_sklearn feature_cols X_train y_train X_test
                    (init\<lparr>feature_names := feature_cols\<rparr>) of
               (Inl e, s2) \<Rightarrow> (Inl e, s2)
             | (Inr (y_pred, y_pred_proba), s2) \<Rightarrow>
                 (case evaluate toy_sklearn y_test y_pred y_pred_proba of
                    Inl e \<Rightarrow> (Inl e, s2)
                  | Inr res \<Rightarrow> report_results res y_test y_pred_proba s2)))"
    by (rule toy_batch_run [OF tbl l small_batch_matrix yy])
  have sp: "sk_train_test_split toy_sklearn small_batch_X
              [Fin 0, Fin 1, Fin 0, Fin 0, Fin 0, Fin 0, Fin 0, Fin 1] =
            Inr (drop 2 small_batch_X, take 2 small_batch_X,
                 [Fin 0, Fin 0, Fin 0, Fin 0, Fin 0, Fin 1], [Fin 0, Fin 1])"
  proof -
    have n: "length small_batch_X = 8" "small_batch_X \<noteq> []" by (simp_all add: small_batch_X_def)
    show ?thesis by (simp add: toy_sklearn_def toy_split_def n)
  qed
  obtain mean where f: "sk_scaler_fit toy_sklearn (drop 2 small_batch_X) = Inr mean"
    and m1: "\<exists>ms. mean = Fin 2 # ms"
    by (simp add: toy_sklearn_def toy_scaler_fit_def small_batch_X_def)
  from m1 obtain ms where ms: "mean = Fin 2 # ms" by (rule exE)
  obtain X_scaled where tr1: "sk_scaler_transform toy_sklearn mean (drop 2 small_batch_X) = Inr X_scaled"
    by (simp add: toy_sklearn_def toy_scaler_transform_def small_batch_X_def)
  obtain rest1 rest2 where
    tr2: "sk_scaler_transform toy_sklearn mean (take 2 small_batch_X) =
            Inr [Fin (- 1) # rest1, Fin 3 # rest2]"
    by (simp add: toy_sklearn_def toy_scaler_transform_def small_batch_X_def ms)
  have lf: "sk_logreg_fit toy_sklearn X_scaled [Fin 0, Fin 0, Fin 0, Fin 0, Fin 0, Fin 1] = Inr ()"
    by (simp add: toy_sklearn_def toy_logreg_fit_def)
  have pr: "sk_predict toy_sklearn () [Fin (- 1) # rest1, Fin 3 # rest2] = Inr [Fin 0, Fin 1]"
    "sk_predict_proba toy_sklearn () [Fin (- 1) # rest1, Fin 3 # rest2] = Inr [Fin (1 / 4), Fin (3 / 4)]"
    by (simp_all add: toy_sklearn_def toy_predict_def toy_predict_proba_def)
  have fs: "fit_and_score toy_sklearn feature_cols (drop 2 small_batch_X)
              [Fin 0, Fin 0, Fin 0, Fin 0, Fin 0, Fin 1] (take 2 small_batch_X)
              (init\<lparr>feature_names := feature_cols\<rparr>) =
            (Inr ([Fin 0, Fin 1], [Fin (1 / 4), Fin (3 / 4)]),
             init\<lparr>feature_names := feature_cols, scaler := Fitted mean,
                  model := Some (Fitted ()), trained := True\<rparr>)"
    by (simp add: fit_and_score_unfold f tr1 lf tr2 pr)
  have ev: "evaluate toy_sklearn [Fin 0, Fin 1] [Fin 0, Fin 1] [Fin (1 / 4), Fin (3 / 4)] =
              Inr \<lparr>accuracy = Fin 1, roc_auc = Fin (1 / 2), classification_report = ''report'',
                   confusion_matrix = [[1, 0], [0, 1]]\<rparr>"
    by (simp add: evaluate_unfold toy_sklearn_def toy_confusion_matrix_def toy_count_def
        toy_accuracy_score_def toy_roc_auc_score_def toy_classification_report_def)
  have wi: "written (init :: (float64 list, unit) churn_model) = []" by (simp add: init_def)
  have run: "train_and_evaluate toy_sklearn clock small_batch (init :: (float64 list, unit) churn_model) =
       (Inr (Some \<lparr>accuracy = Fin 1, roc_auc = Fin (1 / 2), classification_report = ''report'',
                   confusion_matrix = [[1, 0], [0, 1]]\<rparr>),
        init\<lparr>feature_names := feature_cols, scaler := Fitted mean,
             model := Some (Fitted ()), trained := True,
             written := [''churn_feature_importance.png'', ''churn_confusion_matrix.png'',
                         ''churn_roc_curve.png'', ''churn_model_results.txt'']\<rparr>)"
    unfolding t by (simp add: sp fs ev report_results_unfold wi)
  show ?thesis
  proof (intro exI conjI)
    show "prepare_features clock small_batch (init :: (float64 list, unit) churn_model) =
            (Inr prepared, init\<lparr>feature_names := feature_cols\<rparr>)" by (rule p)
    show "\<not> df_empty prepared" by (rule ne)
    show "map revenue_12m (rows prepared) =
            [Fin 10, Fin 70, NaN, Fin 20, Fin 30, Fin 40, Fin 50, Fin 60]"
      unfolding v by (rule vv)
    show "feature_matrix (select_feature_cols (feature_names (init\<lparr>feature_names := feature_cols\<rparr> :: (float64 list, unit) churn_model)) prepared) prepared = small_batch_X"
      unfolding sel by (rule X)
    show "map is_churned (rows prepared) = [Fin 0, Fin 1, Fin 0, Fin 0, Fin 0, Fin 0, Fin 0, Fin 1]"
      by (rule y)
    show "sk_train_test_split toy_sklearn small_batch_X
       [Fin 0, Fin 1, Fin 0, Fin 0, Fin 0, Fin 0, Fin 0, Fin 1] =
       Inr (drop 2 small_batch_X, take 2 small_batch_X,
            [Fin 0, Fin 0, Fin 0, Fin 0, Fin 0, Fin 1], [Fin 0, Fin 1])" by (rule sp)
    show "sk_scaler_fit toy_sklearn (drop 2 small_batch_X) = Inr mean" by (rule f)
    show "train_and_evaluate toy_sklearn clock small_batch (init :: (float64 list, unit) churn_model) =
       (Inr (Some \<lparr>accuracy = Fin 1, roc_auc = Fin (1 / 2), classification_report = ''report'',
                   confusion_matrix = [[1, 0], [0, 1]]\<rparr>),
        init\<lparr>feature_names := feature_cols, scaler := Fitted mean,
             model := Some (Fitted ()), trained := True,
             written := [''churn_feature_importance.png'', ''churn_confusion_matrix.png'',
                         ''churn_roc_curve.png'', ''churn_model_results.txt'']\<rparr>)"
      by (rule run)
  qed simp_all
qed

subsection \<open>Matrices without NaN\<close>

lemma has_nan_subset: "\<not> has_nan X \<Longrightarrow> set X' \<subseteq> set X \<Longrightarrow> \<not> has_nan X'"
  by (auto simp: has_nan_def list_ex_iff)

lemma feature_matrix_no_nan: "\<not> has_nan (feature_matrix cols prepared)"
  by (auto simp: has_nan_def list_ex_iff feature_matrix_def fillna_def isna_def)

lemma fit_and_score_split_update [simp]:
  "fit_and_score (sk\<lparr>sk_train_test_split := g\<rparr>) = fit_and_score sk"
  by (intro ext) (simp add: fit_and_score_unfold cong: sum.case_cong)

lemma evaluate_split_update [simp]:
  "evaluate (sk\<lparr>sk_train_test_split := g\<rparr>) = evaluate sk"
  by (intro ext) (simp add: evaluate_def)

lemma train_and_evaluate_unfold:
  "train_and_evaluate sk now df self =
     (case prepare_features now df self of
        (Inl e, s1) \<Rightarrow> (Inl e, s1)
      | (Inr prepared, s1) \<Rightarrow>
          if df_empty prepared \<or> \<not> has_column ''is_churned'' prepared then (Inr None, s1)
          else if select_feature_cols (feature_names s1) prepared = [] then (Inr None, s1)
          else
            (case sk_train_test_split sk
                    (feature_matrix (select_feature_cols (feature_names s1) prepared) prepared)
                    (map is_churned (rows prepared)) of
               Inl e \<Rightarrow> (Inl e, s1)
             | Inr (X_train, X_test, y_train, y_test) \<Rightarrow>
                 (case fit_and_score sk (select_feature_cols (feature_names s1) prepared)
                         X_train y_train X_test s1 of
                    (Inl e, s2) \<Rightarrow> (Inl e, s2)
                  | (Inr (y_pred, y_pred_proba), s2) \<Rightarrow>
                      (case evaluate sk y_test y_pred y_pred_proba of
                         Inl e \<Rightarrow> (Inl e, s2)
                       | Inr res \<Rightarrow> report_results res y_test y_pred_proba s2))))"
  by (simp add: train_and_evaluate_def and_then_def call_def ret_def Let_def
      split: prod.splits sum.splits)

lemma train_and_evaluate_guard_split:
  "train_and_evaluate
     (sk\<lparr>sk_train_test_split := \<lambda>X y. if has_nan X then Inl e else sk_train_test_split sk X y\<rparr>)
     now df self = train_and_evaluate sk now df self"
  by (simp add: train_and_evaluate_unfold feature_matrix_no_nan
      cong: sum.case_cong prod.case_cong if_cong)

subsection \<open>Exceptions of prepare_features\<close>

lemma prepare_features_InrD:
  assumes "prepare_features now df self = (Inr prepared, self')"
  shows "(df_empty df \<and> prepared = df \<and> self' = self) \<or>
         (rows df \<noteq> [] \<and> has_aggregate_columns df)"
proof (cases "df_empty df")
  case True
  with assms show ?thesis by (simp add: prepare_features_def)
next
  case False
  then have r: "rows df \<noteq> []" by (simp add: df_empty_def)
  from assms False have "has_column ''revenue_12m'' (derive_days now df)"
    "has_column ''order_count_12m'' (derive_days now df)"
    "has_column ''is_churned'' (derive_columns (derive_days now df))"
    by (auto simp: prepare_features_def Let_def split: if_splits)
  then have "has_aggregate_columns df"
    by (simp add: has_aggregate_columns_def has_column_derive_days has_column_derive_columns)
  with r show ?thesis by simp
qed

lemma prepare_features_KeyError:
  assumes "\<not> df_empty df"
  shows "\<not> has_column ''revenue_12m'' df \<Longrightarrow>
           prepare_features now df self = (Inl (KeyError ''revenue_12m''), self)"
    and "has_column ''revenue_12m'' df \<Longrightarrow> \<not> has_column ''order_count_12m'' df \<Longrightarrow>
           prepare_features now df self = (Inl (KeyError ''order_count_12m''), self)"
  using assms by (simp_all add: prepare_features_def Let_def has_column_derive_days)

lemma train_and_evaluate_raises:
  "prepare_features now df self = (Inl e, self') \<Longrightarrow>
     train_and_evaluate sk now df self = (Inl e, self')"
  by (simp add: train_and_evaluate_unfold)

lemma select_feature_cols_nonempty:
  assumes "prepare_features now df self = (Inr prepared, self')" "\<not> df_empty prepared"
  shows "select_feature_cols (feature_names self') prepared = feature_cols"
proof -
  from prepare_features_InrD [OF assms(1)] assms(2) have
    r: "rows df \<noteq> []" and c: "has_aggregate_columns df" by auto
  from prepare_features_nonempty [OF c r, of now self] assms(1) have
    "prepared = \<lparr>columns = columns (derive_columns (derive_days now df)),
           rows = filter (\<lambda>r. \<not> isna (is_churned r))
             (map (derived (has_column ''last_order_date'' df) now (median (map revenue_12m (rows df)))) (rows df))\<rparr>"
    "self' = self\<lparr>feature_names := feature_cols\<rparr>"
    by simp_all
  then show ?thesis by (simp add: select_feature_cols_prepared [OF c])
qed

subsection \<open>The pipeline of train_and_evaluate\<close>

lemma prepared_has_is_churned:
  assumes "prepare_features now df self = (Inr prepared, s1)" "\<not> df_empty prepared"
  shows "has_column ''is_churned'' prepared"
proof -
  from prepare_features_InrD [OF assms(1)] assms(2) have
    r: "rows df \<noteq> []" and c: "has_aggregate_columns df" by auto
  from prepare_features_nonempty [OF c r, of now self] assms(1) have
    "columns prepared = columns (derive_columns (derive_days now df))"
    by auto
  moreover from c have "has_column ''is_churned'' (derive_columns (derive_days now df))"
    by (simp add: has_aggregate_columns_def has_column_derive_mono)
  ultimately show ?thesis by (simp add: has_column_def)
qed

lemma feature_cols_nonempty: "feature_cols \<noteq> []"
  by (simp add: feature_cols_def)

lemma train_and_evaluate_pipeline:
  assumes p: "prepare_features now df self = (Inr prepared, s1)" and ne: "\<not> df_empty prepared"
  shows "train_and_evaluate sk now df self =
     (case sk_train_test_split sk (feature_matrix feature_cols prepared)
             (map is_churned (rows prepared)) of
        Inl e \<Rightarrow> (Inl e, s1)
      | Inr (X_train, X_test, y_train, y_test) \<Rightarrow>
          (case fit_and_score sk feature_cols X_train y_train X_test s1 of
             (Inl e, s2) \<Rightarrow> (Inl e, s2)
           | (Inr (y_pred, y_pred_proba), s2) \<Rightarrow>
               (case evaluate sk y_test y_pred y_pred_proba of
                  Inl e \<Rightarrow> (Inl e, s2)
                | Inr res \<Rightarrow> report_results res y_test y_pred_proba s2)))"
  using ne prepared_has_is_churned [OF p ne]
  by (simp add: train_and_evaluate_unfold p select_feature_cols_nonempty [OF p ne]
      feature_cols_nonempty cong: sum.case_cong prod.case_cong)

subsection \<open>A library that refuses missing values\<close>

lemma evaluate_guard_nan [simp]: "evaluate (guard_nan e sk) = evaluate sk"
  by (intro ext) (simp add: evaluate_def guard_nan_def)

lemma fit_and_score_guard_nan:
  assumes keep: "\<forall>X p X' Xs. sk_scaler_fit sk X = Inr p \<and> \<not> has_nan X \<and> \<not> has_nan X' \<and>
      sk_scaler_transform sk p X' = Inr Xs \<longrightarrow> \<not> has_nan Xs"
    and n1: "\<not> has_nan X_train" and n2: "\<not> has_nan X_test"
  shows "fit_and_score (guard_nan e sk) names X_train y_train X_test self =
         fit_and_score sk names X_train y_train X_test self"
proof (cases "sk_scaler_fit sk X_train")
  case (Inl err)
  with n1 show ?thesis by (simp add: fit_and_score_unfold guard_nan_def)
next
  case f: (Inr p)
  show ?thesis
  proof (cases "sk_scaler_transform sk p X_train")
    case (Inl err)
    with n1 f show ?thesis by (simp add: fit_and_score_unfold guard_nan_def)
  next
    case t1: (Inr Xs)
    from keep f n1 t1 have n3: "\<not> has_nan Xs" by blast
    show ?thesis
    proof (cases "sk_logreg_fit sk Xs y_train")
      case (Inl err)
      with n1 n3 f t1 show ?thesis by (simp add: fit_and_score_unfold guard_nan_def)
    next
      case lf: (Inr clf)
      show ?thesis
      proof (cases "sk_scaler_transform sk p X_test")
        case (Inl err)
        with n1 n2 n3 f t1 lf show ?thesis by (simp add: fit_and_score_unfold guard_nan_def)
      next
        case t2: (Inr Xt)
        from keep f n1 n2 t2 have n4: "\<not> has_nan Xt" by blast
        with n1 n2 n3 f t1 lf t2 show ?thesis
          by (simp add: fit_and_score_unfold guard_nan_def cong: sum.case_cong)
      qed
    qed
  qed
qed

lemma train_and_evaluate_guard_nan:
  assumes sel: "\<forall>X y X_train X_test y_train y_test.
      sk_train_test_split sk X y = Inr (X_train, X_test, y_train, y_test) \<longrightarrow>
      set X_train \<subseteq> set X \<and> set X_test \<subseteq> set X"
    and keep: "\<forall>X p X' Xs. sk_scaler_fit sk X = Inr p \<and> \<not> has_nan X \<and> \<not> has_nan X' \<and>
      sk_scaler_transform sk p X' = Inr Xs \<longrightarrow> \<not> has_nan Xs"
  shows "train_and_evaluate (guard_nan e sk) now df self = train_and_evaluate sk now df self"
proof -
  have sg: "sk_train_test_split (guard_nan e sk) (feature_matrix cols prepared) y =
            sk_train_test_split sk (feature_matrix cols prepared) y" for cols prepared y
    by (simp add: guard_nan_def feature_matrix_no_nan)
  obtain r s1 where p: "prepare_features now df self = (r, s1)"
    by (cases "prepare_features now df self") auto
  show ?thesis
  proof (cases r)
    case (Inl err)
    with p show ?thesis by (simp add: train_and_evaluate_unfold)
  next
    case r: (Inr prepared)
    show ?thesis
    proof (cases "sk_train_test_split sk
                    (feature_matrix (select_feature_cols (feature_names s1) prepared) prepared)
                    (map is_churned (rows prepared))")
      case (Inl err)
      with p r show ?thesis by (simp add: train_and_evaluate_unfold sg)
    next
      case (Inr sp)
      obtain X_train X_test y_train y_test where sp: "sp = (X_train, X_test, y_train, y_test)"
        by (cases sp) auto
      from sel Inr sp have
        "set X_train \<subseteq> set (feature_matrix (select_feature_cols (feature_names s1) prepared) prepared)"
        "set X_test \<subseteq> set (feature_matrix (select_feature_cols (feature_names s1) prepared) prepared)"
        by blast+
      then have "\<not> has_nan X_train" "\<not> has_nan X_test"
        using has_nan_subset [OF feature_matrix_no_nan] by blast+
      with p r Inr sp show ?thesis
        by (simp add: train_and_evaluate_unfold sg fit_and_score_guard_nan [OF keep]
            cong: sum.case_cong prod.case_cong)
    qed
  qed
qed

subsection \<open>The stand-in library\<close>

lemma toy_split_selects_rows:
  assumes "sk_train_test_split toy_sklearn X y = Inr (X_train, X_test, y_train, y_test)"
  shows "set X_train \<subseteq> set X \<and> set X_test \<subseteq> set X"
  using assms
  by (auto simp: toy_sklearn_def toy_split_def Let_def split: if_splits
      dest: in_set_dropD in_set_takeD)

lemma finite_cell: "\<not> isna x \<Longrightarrow> \<not> is_inf x \<Longrightarrow> \<exists>a. x = Fin a"
  by (cases x) (simp_all add: isna_def)

lemma column_sums_finite:
  assumes "\<forall>r \<in> set X. \<forall>x \<in> set r. \<exists>a. x = Fin a"
  shows "\<forall>x \<in> set (column_sums X). \<exists>a. x = Fin a"
  using assms
proof (induction X rule: column_sums.induct)
  case 1
  then show ?case by simp
next
  case (2 r)
  then show ?case by simp
next
  case (3 r r' rs)
  then have ih: "\<forall>x \<in> set (column_sums (r' # rs)). \<exists>a. x = Fin a" by simp
  from 3 have r: "\<forall>x \<in> set r. \<exists>a. x = Fin a" by simp
  show ?case
  proof
    fix x assume "x \<in> set (column_sums (r # r' # rs))"
    then obtain a b where ab: "(a, b) \<in> set (zip r (column_sums (r' # rs)))" and x: "x = num_add a b"
      by auto
    from ab have "a \<in> set r" "b \<in> set (column_sums (r' # rs))"
      by (auto dest: set_zip_leftD set_zip_rightD)
    with r ih obtain u v where "a = Fin u" "b = Fin v" by blast
    with x show "\<exists>a. x = Fin a" by simp
  qed
qed

lemma toy_scaler_fit_finite:
  assumes "toy_scaler_fit X = Inr p" "\<not> has_nan X"
  shows "\<forall>m \<in> set p. \<exists>a. m = Fin a"
proof -
  from assms(1) have ne: "X \<noteq> []" and ni: "\<not> list_ex (list_ex is_inf) X"
    and p: "p = map (\<lambda>s. num_div s (Fin (real (length X)))) (column_sums X)"
    by (auto simp: toy_scaler_fit_def split: if_splits)
  from ni assms(2) have "\<forall>r \<in> set X. \<forall>x \<in> set r. \<exists>a. x = Fin a"
    by (auto simp: has_nan_def list_ex_iff intro: finite_cell)
  then have s: "\<forall>x \<in> set (column_sums X). \<exists>a. x = Fin a" by (rule column_sums_finite)
  from ne have n: "real (length X) \<noteq> 0" by simp
  show ?thesis
  proof
    fix m assume "m \<in> set p"
    then obtain x where "x \<in> set (column_sums X)" "m = num_div x (Fin (real (length X)))"
      by (auto simp: p)
    with s n show "\<exists>a. m = Fin a" by auto
  qed
qed

lemma toy_scaler_transform_no_nan:
  assumes "\<forall>m \<in> set p. \<exists>a. m = Fin a" "\<not> has_nan X" "toy_scaler_transform p X = Inr Xs"
  shows "\<not> has_nan Xs"
proof -
  from assms(3) have ni: "\<not> list_ex (list_ex is_inf) X"
    and Xs: "Xs = map (\<lambda>r. map (\<lambda>(v, m). num_add v (num_neg m)) (zip r p)) X"
    by (auto simp: toy_scaler_transform_def split: if_splits)
  from ni assms(2) have f: "\<forall>r \<in> set X. \<forall>x \<in> set r. \<exists>a. x = Fin a"
    by (auto simp: has_nan_def list_ex_iff intro: finite_cell)
  have "\<not> isna x" if "r \<in> set X" "x \<in> set (map (\<lambda>(v, m). num_add v (num_neg m)) (zip r p))" for r x
  proof -
    from that(2) obtain v m where vm: "(v, m) \<in> set (zip r p)" and x: "x = num_add v (num_neg m)"
      by auto
    from vm have "v \<in> set r" "m \<in> set p" by (auto dest: set_zip_leftD set_zip_rightD)
    with f that(1) assms(1) obtain a b where "v = Fin a" "m = Fin b" by blast
    with x show ?thesis by (simp add: isna_def)
  qed
  then show ?thesis by (auto simp: has_nan_def list_ex_iff Xs)
qed

lemma toy_scaler_keeps_no_nan:
  assumes "sk_scaler_fit toy_sklearn X = Inr p" "\<not> has_nan X" "\<not> has_nan X'"
    "sk_scaler_transform toy_sklearn p X' = Inr Xs"
  shows "\<not> has_nan Xs"
proof -
  from assms(1,2) have "\<forall>m \<in> set p. \<exists>a. m = Fin a"
    by (simp add: toy_sklearn_def toy_scaler_fit_finite)
  then show ?thesis
    using assms(3,4) by (simp add: toy_sklearn_def toy_scaler_transform_no_nan)
qed

subsection \<open>A run with a one-class test partition\<close>

lemma one_class_batch_run:
  "\<exists>prepared s1 s2.
     prepare_features clock one_class_batch (init :: (float64 list, unit) churn_model) = (Inr prepared, s1) \<and>
     \<not> df_empty prepared \<and>
     feature_matrix feature_cols prepared = one_class_batch_X \<and>
     map is_churned (rows prepared) = [Fin 0, Fin 0, Fin 0, Fin 0, Fin 0, Fin 0, Fin 1, Fin 1] \<and>
     sk_train_test_split toy_sklearn one_class_batch_X
       [Fin 0, Fin 0, Fin 0, Fin 0, Fin 0, Fin 0, Fin 1, Fin 1] =
       Inr (drop 2 one_class_batch_X, take 2 one_class_batch_X,
            [Fin 0, Fin 0, Fin 0, Fin 0, Fin 1, Fin 1], [Fin 0, Fin 0]) \<and>
     fit_and_score toy_sklearn feature_cols (drop 2 one_class_batch_X)
       [Fin 0, Fin 0, Fin 0, Fin 0, Fin 1, Fin 1] (take 2 one_class_batch_X) s1 =
       (Inr ([Fin 0, Fin 0], [Fin (1 / 4), Fin (1 / 4)]), s2) \<and>
     trained s2 \<and> written s2 = []"
proof -
  have l: "\<exists>r \<in> set (rows one_class_batch). \<not> isna (is_churned r)"
    by (simp add: one_class_batch_def isna_def)
  have yy: "map is_churned (filter (\<lambda>r. \<not> isna (is_churned r)) (rows one_class_batch)) =
              [Fin 0, Fin 0, Fin 0, Fin 0, Fin 0, Fin 0, Fin 1, Fin 1]"
    by (simp add: one_class_batch_def isna_def)
  have tbl: "one_class_batch = aggregate_table (rows one_class_batch)"
    by (simp add: one_class_batch_def)
  obtain prepared where
    p: "prepare_features clock one_class_batch (init :: (float64 list, unit) churn_model) =
          (Inr prepared, init\<lparr>feature_names := feature_cols\<rparr>)" and
    ne: "\<not> df_empty prepared" and
    X: "feature_matrix feature_cols prepared = one_class_batch_X" and
    y: "map is_churned (rows prepared) = [Fin 0, Fin 0, Fin 0, Fin 0, Fin 0, Fin 0, Fin 1, Fin 1]"
    by (rule toy_batch_run [OF tbl l one_class_batch_matrix yy])
  have sp: "sk_train_test_split toy_sklearn one_class_batch_X
              [Fin 0, Fin 0, Fin 0, Fin 0, Fin 0, Fin 0, Fin 1, Fin 1] =
            Inr (drop 2 one_class_batch_X, take 2 one_class_batch_X,
                 [Fin 0, Fin 0, Fin 0, Fin 0, Fin 1, Fin 1], [Fin 0, Fin 0])"
  proof -
    have n: "length one_class_batch_X = 8" "one_class_batch_X \<noteq> []"
      by (simp_all add: one_class_batch_X_def)
    show ?thesis by (simp add: toy_sklearn_def toy_split_def n)
  qed
  obtain mean where f: "sk_scaler_fit toy_sklearn (drop 2 one_class_batch_X) = Inr mean"
    and m1: "\<exists>ms. mean = Fin 2 # ms"
    by (simp add: toy_sklearn_def toy_scaler_fit_def one_class_batch_X_def)
  from m1 obtain ms where ms: "mean = Fin 2 # ms" by (rule exE)
  obtain X_scaled where
    tr1: "sk_scaler_transform toy_sklearn mean (drop 2 one_class_batch_X) = Inr X_scaled"
    by (simp add: toy_sklearn_def toy_scaler_transform_def one_class_batch_X_def)
  obtain rest1 rest2 where
    tr2: "sk_scaler_transform toy_sklearn mean (take 2 one_class_batch_X) =
            Inr [Fin (- 1) # rest1, Fin (- 1) # rest2]"
    by (simp add: toy_sklearn_def toy_scaler_transform_def one_class_batch_X_def ms)
  have lf: "sk_logreg_fit toy_sklearn X_scaled [Fin 0, Fin 0, Fin 0, Fin 0, Fin 1, Fin 1] = Inr ()"
    by (simp add: toy_sklearn_def toy_logreg_fit_def)
  have pr: "sk_predict toy_sklearn () [Fin (- 1) # rest1, Fin (- 1) # rest2] = Inr [Fin 0, Fin 0]"
    "sk_predict_proba toy_sklearn () [Fin (- 1) # rest1, Fin (- 1) # rest2] =
       Inr [Fin (1 / 4), Fin (1 / 4)]"
    by (simp_all add: toy_sklearn_def toy_predict_def toy_predict_proba_def)
  have fs: "fit_and_score toy_sklearn feature_cols (drop 2 one_class_batch_X)
              [Fin 0, Fin 0, Fin 0, Fin 0, Fin 1, Fin 1] (take 2 one_class_batch_X)
              (init\<lparr>feature_names := feature_cols\<rparr>) =
            (Inr ([Fin 0, Fin 0], [Fin (1 / 4), Fin (1 / 4)]),
             init\<lparr>feature_names := feature_cols, scaler := Fitted mean,
                  model := Some (Fitted ()), trained := True\<rparr>)"
    by (simp add: fit_and_score_unfold f tr1 lf tr2 pr)
  have wi: "written (init :: (float64 list, unit) churn_model) = []" by (simp add: init_def)
  show ?thesis
  proof (intro exI conjI)
    show "prepare_features clock one_class_batch (init :: (float64 list, unit) churn_model) =
            (Inr prepared, init\<lparr>feature_names := feature_cols\<rparr>)" by (rule p)
    show "fit_and_score toy_sklearn feature_cols (drop 2 one_class_batch_X)
              [Fin 0, Fin 0, Fin 0, Fin 0, Fin 1, Fin 1] (take 2 one_class_batch_X)
              (init\<lparr>feature_names := feature_cols\<rparr>) =
            (Inr ([Fin 0, Fin 0], [Fin (1 / 4), Fin (1 / 4)]),
             init\<lparr>feature_names := feature_cols, scaler := Fitted mean,
                  model := Some (Fitted ()), trained := True\<rparr>)" by (rule fs)
  qed (simp_all add: ne X y sp wi)
qed

section \<open>The claims\<close>

subsection \<open>An empty prepared table\<close>

text \<open>
  C1, as the code has it. When the table that \<^verbatim>\<open>prepare_features\<close> returns is empty
  (the input is empty, or no row has a label), \<^verbatim>\<open>train_and_evaluate\<close> raises nothing:
  it returns the empty dict and leaves the scaler, the classifier, the trained flag and the
  output files as they were. When a table that is not empty lacks the column
  \<^verbatim>\<open>revenue_12m\<close> or \<^verbatim>\<open>order_count_12m\<close>, the \<^verbatim>\<open>KeyError\<close> of
  \<^verbatim>\<open>prepare_features\<close> is raised and the object is unchanged. For a prepared table that
  is not empty all feature columns are found, so the guard for missing feature columns is
  not taken.
\<close>

theorem train_and_evaluate_empty:
  "(prepare_features now df self = (Inr prepared, self') \<and> df_empty prepared \<longrightarrow>
      train_and_evaluate sk now df self = (Inr None, self') \<and>
      model self' = model self \<and> scaler self' = scaler self \<and>
      trained self' = trained self \<and> written self' = written self) \<and>
   (\<not> df_empty df \<and> \<not> has_column ''revenue_12m'' df \<longrightarrow>
      train_and_evaluate sk now df self = (Inl (KeyError ''revenue_12m''), self)) \<and>
   (\<not> df_empty df \<and> has_column ''revenue_12m'' df \<and> \<not> has_column ''order_count_12m'' df \<longrightarrow>
      train_and_evaluate sk now df self = (Inl (KeyError ''order_count_12m''), self)) \<and>
   (prepare_features now df self = (Inr prepared, self') \<and> \<not> df_empty prepared \<longrightarrow>
      select_feature_cols (feature_names self') prepared = feature_cols \<and> feature_cols \<noteq> [])"
proof (intro conjI impI)
  assume a: "prepare_features now df self = (Inr prepared, self') \<and> df_empty prepared"
  then show "train_and_evaluate sk now df self = (Inr None, self')"
    by (simp add: train_and_evaluate_of_empty)
  from a show "model self' = model self" "scaler self' = scaler self"
    "trained self' = trained self" "written self' = written self"
    using prepare_features_keeps [of now df self "Inr prepared" self'] by simp_all
next
  assume "\<not> df_empty df \<and> \<not> has_column ''revenue_12m'' df"
  then show "train_and_evaluate sk now df self = (Inl (KeyError ''revenue_12m''), self)"
    by (simp add: train_and_evaluate_raises prepare_features_KeyError)
next
  assume "\<not> df_empty df \<and> has_column ''revenue_12m'' df \<and> \<not> has_column ''order_count_12m'' df"
  then show "train_and_evaluate sk now df self = (Inl (KeyError ''order_count_12m''), self)"
    by (simp add: train_and_evaluate_raises prepare_features_KeyError)
next
  assume "prepare_features now df self = (Inr prepared, self') \<and> \<not> df_empty prepared"
  then show "select_feature_cols (feature_names self') prepared = feature_cols"
    by (elim conjE) (rule select_feature_cols_nonempty)
  show "feature_cols \<noteq> []" by (simp add: feature_cols_def)
qed

theorem train_and_evaluate_empty_witness:
  "rows unlabelled_batch \<noteq> [] \<and>
   (\<exists>prepared self'.
      prepare_features clock unlabelled_batch (init :: (float64 list, unit) churn_model) = (Inr prepared, self') \<and>
      df_empty prepared \<and>
      train_and_evaluate toy_sklearn clock unlabelled_batch init = (Inr None, self') \<and>
      model self' = None \<and> scaler self' = Unfitted \<and> \<not> trained self' \<and> written self' = []) \<and>
   \<not> df_empty headless_batch \<and> \<not> has_column ''revenue_12m'' headless_batch \<and>
   train_and_evaluate toy_sklearn clock headless_batch (init :: (float64 list, unit) churn_model) =
     (Inl (KeyError ''revenue_12m''), init) \<and>
   (\<exists>prepared self'.
      prepare_features clock small_batch (init :: (float64 list, unit) churn_model) = (Inr prepared, self') \<and>
      \<not> df_empty prepared \<and>
      select_feature_cols (feature_names self') prepared = feature_cols)"
proof -
  note T = train_and_evaluate_empty [where sk = toy_sklearn and now = clock]
  obtain out where
    p: "prepare_features clock unlabelled_batch (init :: (float64 list, unit) churn_model) =
          (Inr out, if rows unlabelled_batch = [] then init else init\<lparr>feature_names := feature_cols\<rparr>)" and
    r: "rows out = filter (\<lambda>r. \<not> isna (is_churned r))
          (map (derived True clock (median (map revenue_12m (rows unlabelled_batch)))) (rows unlabelled_batch))"
    unfolding unlabelled_batch_def rows_table by (rule prepared_batch)
  have e: "df_empty out" unfolding df_empty_def r by (simp add: unlabelled_batch_def isna_def)
  have n: "rows unlabelled_batch \<noteq> []" by (simp add: unlabelled_batch_def)
  let ?s = "if rows unlabelled_batch = [] then init else init\<lparr>feature_names := feature_cols\<rparr>
              :: (float64 list, unit) churn_model"
  from T [where df = unlabelled_batch and self = init and prepared = out and self' = ?s,
      THEN conjunct1] p e
  have t: "train_and_evaluate toy_sklearn clock unlabelled_batch init = (Inr None, ?s)"
    and k: "model ?s = None" "scaler ?s = Unfitted" "\<not> trained ?s" "written ?s = []"
    by (simp_all add: init_def)
  have h: "\<not> df_empty headless_batch" "\<not> has_column ''revenue_12m'' headless_batch"
    by (simp_all add: headless_batch_def df_empty_def has_column_def)
  from T [where df = headless_batch and self = "init :: (float64 list, unit) churn_model",
      THEN conjunct2, THEN conjunct1] h
  have x: "train_and_evaluate toy_sklearn clock headless_batch (init :: (float64 list, unit) churn_model) =
     (Inl (KeyError ''revenue_12m''), init)"
    by simp
  from small_batch_run obtain prepared s1 res self' where
    sp: "prepare_features clock small_batch (init :: (float64 list, unit) churn_model) = (Inr prepared, s1)" and
    run: "train_and_evaluate toy_sklearn clock small_batch (init :: (float64 list, unit) churn_model) =
            (Inr (Some res), self')"
    by blast
  from train_and_evaluate_SomeD [OF run] sp have ne: "\<not> df_empty prepared"
    by (metis Pair_inject sum.inject(2))
  from T [where df = small_batch and self = "init :: (float64 list, unit) churn_model"
      and prepared = prepared and self' = s1,
      THEN conjunct2, THEN conjunct2, THEN conjunct2] sp ne
  have sel: "select_feature_cols (feature_names s1) prepared = feature_cols" by simp
  show ?thesis
  proof (intro conjI)
    show "\<exists>prepared self'.
      prepare_features clock unlabelled_batch (init :: (float64 list, unit) churn_model) = (Inr prepared, self') \<and>
      df_empty prepared \<and>
      train_and_evaluate toy_sklearn clock unlabelled_batch init = (Inr None, self') \<and>
      model self' = None \<and> scaler self' = Unfitted \<and> \<not> trained self' \<and> written self' = []"
      by (intro exI conjI) (rule p, rule e, rule t, rule k, rule k, rule k, rule k)
    show "\<exists>prepared self'.
      prepare_features clock small_batch (init :: (float64 list, unit) churn_model) = (Inr prepared, self') \<and>
      \<not> df_empty prepared \<and>
      select_feature_cols (feature_names self') prepared = feature_cols"
      by (intro exI conjI) (rule sp, rule ne, rule sel)
  qed (rule n h x)+
qed

theorem train_and_evaluate_empty_counterexample:
  "prepare_features clock (aggregate_table []) (init :: (float64 list, unit) churn_model) =
     (Inr (aggregate_table []), init) \<and>
   df_empty (aggregate_table []) \<and>
   train_and_evaluate toy_sklearn clock (aggregate_table [])
     (init :: (float64 list, unit) churn_model) = (Inr None, init)"
proof -
  have e: "df_empty (aggregate_table [])" by (simp add: df_empty_def)
  note p = prepare_features_empty_table [of clock "init :: (float64 list, unit) churn_model"]
  have t: "train_and_evaluate toy_sklearn clock (aggregate_table [])
             (init :: (float64 list, unit) churn_model) = (Inr None, init)"
    by (rule train_and_evaluate_of_empty [OF p e])
  show ?thesis using e p t by simp
qed

subsection \<open>Determinism\<close>

text \<open>
  C2. The table that \<^verbatim>\<open>prepare_features\<close> returns (or the exception it raises) depends
  on the input table and on the reference date only: two calls on the same table whose
  clock readings fall on the same day return the same result, whatever the state of the
  objects they are called on, and so does a second call on the object the first one left.
\<close>

theorem prepare_features_deterministic:
  assumes "normalize now1 = normalize now2"
  shows "fst (prepare_features now1 df self1) = fst (prepare_features now2 df self2) \<and>
         fst (prepare_features now2 df (snd (prepare_features now1 df self1))) =
           fst (prepare_features now1 df self1)"
proof
  show "fst (prepare_features now1 df self1) = fst (prepare_features now2 df self2)"
    by (rule fst_prepare_features [OF assms])
  show "fst (prepare_features now2 df (snd (prepare_features now1 df self1))) =
          fst (prepare_features now1 df self1)"
    by (rule fst_prepare_features [OF assms [symmetric]])
qed

theorem prepare_features_deterministic_witness:
  "normalize clock = normalize (clock + 3600000000000) \<and>
   clock \<noteq> clock + 3600000000000 \<and>
   fst (prepare_features clock dated_batch (init :: (unit, unit) churn_model)) =
     fst (prepare_features (clock + 3600000000000) dated_batch
            ((init :: (nat, bool) churn_model)\<lparr>trained := True\<rparr>)) \<and>
   fst (prepare_features (clock + 3600000000000) dated_batch
          (snd (prepare_features clock dated_batch (init :: (unit, unit) churn_model)))) =
     fst (prepare_features clock dated_batch (init :: (unit, unit) churn_model))"
proof -
  have n: "normalize clock = normalize (clock + 3600000000000)"
    by (simp add: normalize_def clock_def day_ns_def)
  from prepare_features_deterministic [OF n] n show ?thesis by simp
qed

subsection \<open>Recency in days\<close>

text \<open>
  C3. For a table with the columns of the aggregate, \<^verbatim>\<open>prepare_features\<close> returns, and
  in every row it returns \<^verbatim>\<open>days_since_last_order\<close> is an integer between 0 and 999:
  the whole days from \<^verbatim>\<open>last_order_date\<close> to the reference date (midnight of the
  clock's day), clipped to that range, and 999 when the date is missing or cannot be read,
  or when the table has no \<^verbatim>\<open>last_order_date\<close> column.
\<close>

theorem days_since_last_order_range:
  assumes "has_aggregate_columns df"
  shows "\<exists>out self'. prepare_features now df self = (Inr out, self') \<and>
     (\<forall>r \<in> set (rows out). \<exists>d::int. 0 \<le> d \<and> d \<le> 999 \<and>
        days_since_last_order r = Fin (of_int d) \<and>
        d = (if has_column ''last_order_date'' df
             then (case to_datetime (last_order_date r) of None \<Rightarrow> 999
                   | Some t \<Rightarrow> min 999 (max 0 ((normalize now - t) div day_ns)))
             else 999))"
proof -
  from prepare_featuresE [OF assms, of now self] obtain out self' where
    p: "prepare_features now df self = (Inr out, self')" and
    r: "rows out = filter (\<lambda>r. \<not> isna (is_churned r))
          (map (derived (has_column ''last_order_date'' df) now (median (map revenue_12m (rows df)))) (rows df))"
    by blast
  have "\<exists>d::int. 0 \<le> d \<and> d \<le> 999 \<and> days_since_last_order x = Fin (of_int d) \<and>
        d = (if has_column ''last_order_date'' df
             then (case to_datetime (last_order_date x) of None \<Rightarrow> 999
                   | Some t \<Rightarrow> min 999 (max 0 ((normalize now - t) div day_ns)))
             else 999)" if "x \<in> set (rows out)" for x
  proof -
    from that r obtain r0 where
      x: "x = derived (has_column ''last_order_date'' df) now (median (map revenue_12m (rows df))) r0"
      by auto
    show ?thesis
      using days_of_int [of "has_column ''last_order_date'' df" now r0] by (simp add: x)
  qed
  with p show ?thesis by blast
qed

theorem days_since_last_order_range_witness:
  "has_aggregate_columns dated_batch \<and>
   (\<exists>out self'. prepare_features clock dated_batch (init :: (unit, unit) churn_model) = (Inr out, self') \<and>
      map days_since_last_order (rows out) = [Fin 5, Fin 95, Fin 0, Fin 999, Fin 999] \<and>
      (\<forall>r \<in> set (rows out). \<exists>d::int. 0 \<le> d \<and> d \<le> 999 \<and> days_since_last_order r = Fin (of_int d)))"
proof -
  note c = has_aggregate_columns_batches(1)
  from days_since_last_order_range [OF c, of clock "init :: (unit, unit) churn_model"]
  obtain out self' where
    p: "prepare_features clock dated_batch (init :: (unit, unit) churn_model) = (Inr out, self')" and
    q: "\<forall>r \<in> set (rows out). \<exists>d::int. 0 \<le> d \<and> d \<le> 999 \<and> days_since_last_order r = Fin (of_int d)"
    by blast
  from prepare_featuresE [OF c, of clock "init :: (unit, unit) churn_model"] obtain out2 where
    p2: "prepare_features clock dated_batch (init :: (unit, unit) churn_model) =
           (Inr out2, if rows dated_batch = [] then init else init\<lparr>feature_names := feature_cols\<rparr>)" and
    r: "rows out2 = filter (\<lambda>r. \<not> isna (is_churned r))
          (map (derived (has_column ''last_order_date'' dated_batch) clock
                 (median (map revenue_12m (rows dated_batch)))) (rows dated_batch))"
    by blast
  from p p2 have e: "out2 = out" by simp
  have h: "map days_since_last_order (rows out2) = [Fin 5, Fin 95, Fin 0, Fin 999, Fin 999]"
    unfolding r
    by (simp add: dated_batch_def has_dates_table isna_def days_of_def fillna_def clock_def
        normalize_def day_ns_def)
  show ?thesis
  proof (intro conjI exI)
    show "has_aggregate_columns dated_batch" by (rule c)
    show "prepare_features clock dated_batch (init :: (unit, unit) churn_model) = (Inr out, self')"
      by (rule p)
    show "map days_since_last_order (rows out) = [Fin 5, Fin 95, Fin 0, Fin 999, Fin 999]"
      by (rule h [unfolded e])
    show "\<forall>r \<in> set (rows out). \<exists>d::int. 0 \<le> d \<and> d \<le> 999 \<and> days_since_last_order r = Fin (of_int d)"
      by (rule q)
  qed
qed

subsection \<open>ROC-AUC of a one-class test partition\<close>

text \<open>
  C4. Line 253 keeps \<^verbatim>\<open>roc_auc_score\<close> away from a test partition with one class, but
  line 254 still calls \<^verbatim>\<open>classification_report\<close> with two target names: when that call
  raises on the one-class partition, the evaluation raises its exception although the
  confusion matrix and the accuracy were computed, and \<^verbatim>\<open>train_and_evaluate\<close> raises it
  after the model has been trained, before any result is reported. The library raises
  there when the predictions hold the same single class as the labels; the run on
  \<open>one_class_batch\<close> is such a case.
\<close>

theorem one_class_report_raises:
  "(length (remdups y_test) \<le> 1 \<and>
    sk_confusion_matrix sk y_test y_pred = Inr cm \<and>
    sk_accuracy_score sk y_test y_pred = Inr acc \<and>
    sk_classification_report sk y_test y_pred = Inl e \<longrightarrow>
      evaluate sk y_test y_pred y_pred_proba = Inl e) \<and>
   (prepare_features now df self = (Inr prepared, s1) \<and> \<not> df_empty prepared \<and>
    sk_train_test_split sk (feature_matrix feature_cols prepared) (map is_churned (rows prepared)) =
      Inr (X_train, X_test, y_train, y_test) \<and>
    fit_and_score sk feature_cols X_train y_train X_test s1 = (Inr (y_pred, y_pred_proba), s2) \<and>
    evaluate sk y_test y_pred y_pred_proba = Inl e \<longrightarrow>
      train_and_evaluate sk now df self = (Inl e, s2))"
proof (intro conjI impI)
  assume "length (remdups y_test) \<le> 1 \<and>
    sk_confusion_matrix sk y_test y_pred = Inr cm \<and>
    sk_accuracy_score sk y_test y_pred = Inr acc \<and>
    sk_classification_report sk y_test y_pred = Inl e"
  then show "evaluate sk y_test y_pred y_pred_proba = Inl e"
    by (simp add: evaluate_unfold)
next
  assume a: "prepare_features now df self = (Inr prepared, s1) \<and> \<not> df_empty prepared \<and>
    sk_train_test_split sk (feature_matrix feature_cols prepared) (map is_churned (rows prepared)) =
      Inr (X_train, X_test, y_train, y_test) \<and>
    fit_and_score sk feature_cols X_train y_train X_test s1 = (Inr (y_pred, y_pred_proba), s2) \<and>
    evaluate sk y_test y_pred y_pred_proba = Inl e"
  then have p: "prepare_features now df self = (Inr prepared, s1)" and ne: "\<not> df_empty prepared"
    by simp_all
  from a show "train_and_evaluate sk now df self = (Inl e, s2)"
    by (simp add: train_and_evaluate_pipeline [OF p ne])
qed

theorem one_class_report_raises_witness:
  "\<exists>prepared s1 s2.
     prepare_features clock one_class_batch (init :: (float64 list, unit) churn_model) = (Inr prepared, s1) \<and>
     \<not> df_empty prepared \<and>
     map is_churned (rows prepared) = [Fin 0, Fin 0, Fin 0, Fin 0, Fin 0, Fin 0, Fin 1, Fin 1] \<and>
     sk_train_test_split toy_sklearn (feature_matrix feature_cols prepared)
       (map is_churned (rows prepared)) =
       Inr (drop 2 one_class_batch_X, take 2 one_class_batch_X,
            [Fin 0, Fin 0, Fin 0, Fin 0, Fin 1, Fin 1], [Fin 0, Fin 0]) \<and>
     length (remdups [Fin 0, Fin 0 :: float64]) \<le> 1 \<and>
     fit_and_score toy_sklearn feature_cols (drop 2 one_class_batch_X)
       [Fin 0, Fin 0, Fin 0, Fin 0, Fin 1, Fin 1] (take 2 one_class_batch_X) s1 =
       (Inr ([Fin 0, Fin 0], [Fin (1 / 4), Fin (1 / 4)]), s2) \<and>
     sk_confusion_matrix toy_sklearn [Fin 0, Fin 0] [Fin 0, Fin 0] = Inr [[2, 0], [0, 0]] \<and>
     sk_accuracy_score toy_sklearn [Fin 0, Fin 0] [Fin 0, Fin 0] = Inr (Fin 1) \<and>
     sk_classification_report toy_sklearn [Fin 0, Fin 0] [Fin 0, Fin 0] =
       Inl (ValueError ''Number of classes does not match size of target_names'') \<and>
     evaluate toy_sklearn [Fin 0, Fin 0] [Fin 0, Fin 0] [Fin (1 / 4), Fin (1 / 4)] =
       Inl (ValueError ''Number of classes does not match size of target_names'') \<and>
     train_and_evaluate toy_sklearn clock one_class_batch (init :: (float64 list, unit) churn_model) =
       (Inl (ValueError ''Number of classes does not match size of target_names''), s2) \<and>
     trained s2 \<and> written s2 = []"
proof -
  from one_class_batch_run obtain prepared s1 s2 where
    p: "prepare_features clock one_class_batch (init :: (float64 list, unit) churn_model) = (Inr prepared, s1)" and
    ne: "\<not> df_empty prepared" and
    X: "feature_matrix feature_cols prepared = one_class_batch_X" and
    y: "map is_churned (rows prepared) = [Fin 0, Fin 0, Fin 0, Fin 0, Fin 0, Fin 0, Fin 1, Fin 1]" and
    sp: "sk_train_test_split toy_sklearn one_class_batch_X
       [Fin 0, Fin 0, Fin 0, Fin 0, Fin 0, Fin 0, Fin 1, Fin 1] =
       Inr (drop 2 one_class_batch_X, take 2 one_class_batch_X,
            [Fin 0, Fin 0, Fin 0, Fin 0, Fin 1, Fin 1], [Fin 0, Fin 0])" and
    fs: "fit_and_score toy_sklearn feature_cols (drop 2 one_class_batch_X)
       [Fin 0, Fin 0, Fin 0, Fin 0, Fin 1, Fin 1] (take 2 one_class_batch_X) s1 =
       (Inr ([Fin 0, Fin 0], [Fin (1 / 4), Fin (1 / 4)]), s2)" and
    k: "trained s2" "written s2 = []"
    by (elim exE conjE)
  have one: "length (remdups [Fin 0, Fin 0 :: float64]) \<le> 1" by simp
  have cm: "sk_confusion_matrix toy_sklearn [Fin 0, Fin 0] [Fin 0, Fin 0] = Inr [[2, 0], [0, 0]]"
    by (simp add: toy_sklearn_def toy_confusion_matrix_def toy_count_def)
  have acc: "sk_accuracy_score toy_sklearn [Fin 0, Fin 0] [Fin 0, Fin 0] = Inr (Fin 1)"
    by (simp add: toy_sklearn_def toy_accuracy_score_def)
  have rep: "sk_classification_report toy_sklearn [Fin 0, Fin 0] [Fin 0, Fin 0] =
       Inl (ValueError ''Number of classes does not match size of target_names'')"
    by (simp add: toy_sklearn_def toy_classification_report_def)
  note T = one_class_report_raises [where sk = toy_sklearn and y_test = "[Fin 0, Fin 0]"
      and y_pred = "[Fin 0, Fin 0]" and y_pred_proba = "[Fin (1 / 4), Fin (1 / 4)]"
      and cm = "[[2, 0], [0, 0]]" and acc = "Fin 1"
      and e = "ValueError ''Number of classes does not match size of target_names''"
      and now = clock and df = one_class_batch and self = "init :: (float64 list, unit) churn_model"
      and prepared = prepared and ?s1.0 = s1 and ?s2.0 = s2
      and X_train = "drop 2 one_class_batch_X" and X_test = "take 2 one_class_batch_X"
      and y_train = "[Fin 0, Fin 0, Fin 0, Fin 0, Fin 1, Fin 1]"]
  from T [THEN conjunct1] one cm acc rep
  have ev: "evaluate toy_sklearn [Fin 0, Fin 0] [Fin 0, Fin 0] [Fin (1 / 4), Fin (1 / 4)] =
       Inl (ValueError ''Number of classes does not match size of target_names'')"
    by blast
  have sp': "sk_train_test_split toy_sklearn (feature_matrix feature_cols prepared)
       (map is_churned (rows prepared)) =
       Inr (drop 2 one_class_batch_X, take 2 one_class_batch_X,
            [Fin 0, Fin 0, Fin 0, Fin 0, Fin 1, Fin 1], [Fin 0, Fin 0])"
    unfolding X y by (rule sp)
  from T [THEN conjunct2] p ne sp' fs ev
  have run: "train_and_evaluate toy_sklearn clock one_class_batch (init :: (float64 list, unit) churn_model) =
       (Inl (ValueError ''Number of classes does not match size of target_names''), s2)"
    by blast
  show ?thesis
    by (intro exI conjI) (rule p ne y sp' one fs cm acc rep ev run k)+
qed

subsection \<open>The scaler is fitted on the training partition\<close>

text \<open>
  C5. After the fit of lines 247--250 the scaler holds the parameters that
  \<^verbatim>\<open>StandardScaler.fit\<close> computes from the training partition, or is unfitted when
  that fit fails: the parameters do not depend on the test partition or on the earlier
  state of the object, the fit is consulted on the training partition only, and the test
  partition is transformed with the parameters of the training partition. The scaler that
  a successful \<^verbatim>\<open>train_and_evaluate\<close> leaves holds the parameters fitted on the training
  partition of its split.
\<close>

theorem scaler_fitted_on_train_only:
  "scaler (snd (fit_and_score sk names X_train y_train X_test self)) =
     (case sk_scaler_fit sk X_train of Inl e \<Rightarrow> Unfitted | Inr p \<Rightarrow> Fitted p) \<and>
   scaler (snd (fit_and_score sk names X_train y_train X_test self)) =
     scaler (snd (fit_and_score sk names X_train y_train X_test' self2)) \<and>
   (g X_train = sk_scaler_fit sk X_train \<longrightarrow>
      fit_and_score (sk\<lparr>sk_scaler_fit := g\<rparr>) names X_train y_train X_test self =
        fit_and_score sk names X_train y_train X_test self) \<and>
   (\<forall>y_pred y_pred_proba s'.
      fit_and_score sk names X_train y_train X_test self = (Inr (y_pred, y_pred_proba), s') \<longrightarrow>
      (\<exists>p X_test_scaled clf.
         sk_scaler_fit sk X_train = Inr p \<and> scaler s' = Fitted p \<and>
         sk_scaler_transform sk p X_test = Inr X_test_scaled \<and>
         model s' = Some (Fitted clf) \<and>
         sk_predict sk clf X_test_scaled = Inr y_pred \<and>
         sk_predict_proba sk clf X_test_scaled = Inr y_pred_proba)) \<and>
   (\<forall>res self'.
      train_and_evaluate sk now df self = (Inr (Some res), self') \<longrightarrow>
      (\<exists>prepared s1 X_tr X_te y_tr y_te p.
         prepare_features now df self = (Inr prepared, s1) \<and>
         sk_train_test_split sk
           (feature_matrix (select_feature_cols (feature_names s1) prepared) prepared)
           (map is_churned (rows prepared)) = Inr (X_tr, X_te, y_tr, y_te) \<and>
         sk_scaler_fit sk X_tr = Inr p \<and> scaler self' = Fitted p))"
proof (intro conjI impI allI)
  show "scaler (snd (fit_and_score sk names X_train y_train X_test self)) =
     (case sk_scaler_fit sk X_train of Inl e \<Rightarrow> Unfitted | Inr p \<Rightarrow> Fitted p)"
    by (rule scaler_fit_and_score)
  show "scaler (snd (fit_and_score sk names X_train y_train X_test self)) =
     scaler (snd (fit_and_score sk names X_train y_train X_test' self2))"
    by (simp only: scaler_fit_and_score)
next
  assume "g X_train = sk_scaler_fit sk X_train"
  then show "fit_and_score (sk\<lparr>sk_scaler_fit := g\<rparr>) names X_train y_train X_test self =
        fit_and_score sk names X_train y_train X_test self"
    by (simp add: fit_and_score_unfold cong: sum.case_cong)
next
  fix y_pred y_pred_proba s'
  assume "fit_and_score sk names X_train y_train X_test self = (Inr (y_pred, y_pred_proba), s')"
  then obtain p X_scaled clf X_test_scaled where
    "sk_scaler_fit sk X_train = Inr p" "scaler s' = Fitted p"
    "sk_scaler_transform sk p X_test = Inr X_test_scaled" "model s' = Some (Fitted clf)"
    "sk_predict sk clf X_test_scaled = Inr y_pred"
    "sk_predict_proba sk clf X_test_scaled = Inr y_pred_proba"
    by (rule fit_and_score_InrD)
  then show "\<exists>p X_test_scaled clf.
         sk_scaler_fit sk X_train = Inr p \<and> scaler s' = Fitted p \<and>
         sk_scaler_transform sk p X_test = Inr X_test_scaled \<and>
         model s' = Some (Fitted clf) \<and>
         sk_predict sk clf X_test_scaled = Inr y_pred \<and>
         sk_predict_proba sk clf X_test_scaled = Inr y_pred_proba"
    by blast
next
  fix res self'
  assume "train_and_evaluate sk now df self = (Inr (Some res), self')"
  then obtain prepared s1 X_tr X_te y_tr y_te y_pred y_pred_proba s2 where
    p: "prepare_features now df self = (Inr prepared, s1)" and
    s: "sk_train_test_split sk
          (feature_matrix (select_feature_cols (feature_names s1) prepared) prepared)
          (map is_churned (rows prepared)) = Inr (X_tr, X_te, y_tr, y_te)" and
    f: "fit_and_score sk (select_feature_cols (feature_names s1) prepared) X_tr y_tr X_te s1 =
          (Inr (y_pred, y_pred_proba), s2)" and
    r: "report_results res y_te y_pred_proba s2 = (Inr (Some res), self')"
    by (rule train_and_evaluate_SomeD)
  from f obtain q where q: "sk_scaler_fit sk X_tr = Inr q" "scaler s2 = Fitted q"
    by (rule fit_and_score_InrD)
  from report_results_InrD(2) [OF r] q(2) have "scaler self' = Fitted q" by simp
  with p s q(1) show "\<exists>prepared s1 X_tr X_te y_tr y_te p.
         prepare_features now df self = (Inr prepared, s1) \<and>
         sk_train_test_split sk
           (feature_matrix (select_feature_cols (feature_names s1) prepared) prepared)
           (map is_churned (rows prepared)) = Inr (X_tr, X_te, y_tr, y_te) \<and>
         sk_scaler_fit sk X_tr = Inr p \<and> scaler self' = Fitted p"
    by blast
qed

theorem scaler_fitted_on_train_only_witness:
  "scaler (snd (fit_and_score toy_sklearn [''x''] [[Fin 1], [Fin 3]] [Fin 0, Fin 1] [[Fin 5]]
            (init :: (float64 list, unit) churn_model))) = Fitted [Fin 2] \<and>
   scaler (snd (fit_and_score toy_sklearn [''x''] [[Fin 1], [Fin 3]] [Fin 0, Fin 1]
            [[Fin 100], [Fin 7]] ((init :: (float64 list, unit) churn_model)\<lparr>trained := True\<rparr>))) =
     Fitted [Fin 2] \<and>
   fit_and_score
     (toy_sklearn\<lparr>sk_scaler_fit :=
        \<lambda>X. if X = [[Fin 1], [Fin 3]] then toy_scaler_fit X else Inl NotFittedError\<rparr>)
     [''x''] [[Fin 1], [Fin 3]] [Fin 0, Fin 1] [[Fin 5]] (init :: (float64 list, unit) churn_model) =
     fit_and_score toy_sklearn [''x''] [[Fin 1], [Fin 3]] [Fin 0, Fin 1] [[Fin 5]] init \<and>
   (\<exists>s'. fit_and_score toy_sklearn [''x''] [[Fin 1], [Fin 3]] [Fin 0, Fin 1] [[Fin 5]]
            (init :: (float64 list, unit) churn_model) = (Inr ([Fin 1], [Fin (3 / 4)]), s') \<and>
         scaler s' = Fitted [Fin 2] \<and>
         sk_scaler_transform toy_sklearn [Fin 2] [[Fin 5]] = Inr [[Fin 3]]) \<and>
   (\<exists>res self' p.
      train_and_evaluate toy_sklearn clock small_batch (init :: (float64 list, unit) churn_model) =
        (Inr (Some res), self') \<and> scaler self' = Fitted p)"
proof -
  note T = scaler_fitted_on_train_only [where sk = toy_sklearn and names = "[''x'']"
      and X_train = "[[Fin 1], [Fin 3]]" and y_train = "[Fin 0, Fin 1]" and X_test = "[[Fin 5]]"
      and self = "init :: (float64 list, unit) churn_model"
      and X_test' = "[[Fin 100], [Fin 7]]"
      and ?self2.0 = "(init :: (float64 list, unit) churn_model)\<lparr>trained := True\<rparr>"
      and g = "\<lambda>X. if X = [[Fin 1], [Fin 3]] then toy_scaler_fit X else Inl NotFittedError"
      and now = clock and df = small_batch]
  have f: "sk_scaler_fit toy_sklearn [[Fin 1], [Fin 3]] = Inr [Fin 2]"
    by (simp add: toy_sklearn_def toy_scaler_fit_def)
  have g: "(if [[Fin 1], [Fin 3]] = [[Fin 1], [Fin 3]] then toy_scaler_fit [[Fin 1], [Fin 3]]
            else Inl NotFittedError) = sk_scaler_fit toy_sklearn [[Fin 1], [Fin 3]]"
    by (simp add: toy_sklearn_def)
  have c1: "scaler (snd (fit_and_score toy_sklearn [''x''] [[Fin 1], [Fin 3]] [Fin 0, Fin 1] [[Fin 5]]
            (init :: (float64 list, unit) churn_model))) = Fitted [Fin 2]"
    using T [THEN conjunct1] by (simp add: f)
  have c2: "scaler (snd (fit_and_score toy_sklearn [''x''] [[Fin 1], [Fin 3]] [Fin 0, Fin 1]
            [[Fin 100], [Fin 7]] ((init :: (float64 list, unit) churn_model)\<lparr>trained := True\<rparr>))) =
     Fitted [Fin 2]"
    using T [THEN conjunct2, THEN conjunct1] c1 by simp
  have c3: "fit_and_score
     (toy_sklearn\<lparr>sk_scaler_fit :=
        \<lambda>X. if X = [[Fin 1], [Fin 3]] then toy_scaler_fit X else Inl NotFittedError\<rparr>)
     [''x''] [[Fin 1], [Fin 3]] [Fin 0, Fin 1] [[Fin 5]] (init :: (float64 list, unit) churn_model) =
     fit_and_score toy_sklearn [''x''] [[Fin 1], [Fin 3]] [Fin 0, Fin 1] [[Fin 5]] init"
    using T [THEN conjunct2, THEN conjunct2, THEN conjunct1] g by blast
  have tr: "sk_scaler_transform toy_sklearn [Fin 2] [[Fin 5]] = Inr [[Fin 3]]"
    "sk_scaler_transform toy_sklearn [Fin 2] [[Fin 1], [Fin 3]] = Inr [[Fin (- 1)], [Fin 1]]"
    by (simp_all add: toy_sklearn_def toy_scaler_transform_def)
  have lf: "sk_logreg_fit toy_sklearn [[Fin (- 1)], [Fin 1]] [Fin 0, Fin 1] = Inr ()"
    by (simp add: toy_sklearn_def toy_logreg_fit_def)
  have pr: "sk_predict toy_sklearn () [[Fin 3]] = Inr [Fin 1]"
    "sk_predict_proba toy_sklearn () [[Fin 3]] = Inr [Fin (3 / 4)]"
    by (simp_all add: toy_sklearn_def toy_predict_def toy_predict_proba_def)
  have run: "fit_and_score toy_sklearn [''x''] [[Fin 1], [Fin 3]] [Fin 0, Fin 1] [[Fin 5]]
            (init :: (float64 list, unit) churn_model) =
          (Inr ([Fin 1], [Fin (3 / 4)]),
           init\<lparr>feature_names := [''x''], scaler := Fitted [Fin 2],
                model := Some (Fitted ()), trained := True\<rparr>)"
    by (simp add: fit_and_score_unfold f tr lf pr)
  have c4: "\<exists>s'. fit_and_score toy_sklearn [''x''] [[Fin 1], [Fin 3]] [Fin 0, Fin 1] [[Fin 5]]
            (init :: (float64 list, unit) churn_model) = (Inr ([Fin 1], [Fin (3 / 4)]), s') \<and>
         scaler s' = Fitted [Fin 2] \<and>
         sk_scaler_transform toy_sklearn [Fin 2] [[Fin 5]] = Inr [[Fin 3]]"
    using run tr(1) by simp
  from small_batch_run obtain res self' where
    r: "train_and_evaluate toy_sklearn clock small_batch (init :: (float64 list, unit) churn_model) =
          (Inr (Some res), self')"
    by blast
  from T [THEN conjunct2, THEN conjunct2, THEN conjunct2, THEN conjunct2] r
  obtain p where "scaler self' = Fitted p" by blast
  with r have c5: "\<exists>res self' p.
      train_and_evaluate toy_sklearn clock small_batch (init :: (float64 list, unit) churn_model) =
        (Inr (Some res), self') \<and> scaler self' = Fitted p"
    by blast
  from c1 c2 c3 c4 c5 show ?thesis by (intro conjI)
qed

subsection \<open>High-value flag\<close>

text \<open>
  C6. In every row that \<^verbatim>\<open>prepare_features\<close> returns, \<^verbatim>\<open>is_high_value\<close> is 1 when
  \<^verbatim>\<open>revenue_12m\<close> is greater than or equal to the median of \<^verbatim>\<open>revenue_12m\<close> over the
  input batch, and 0 otherwise. For the revenues 10, 20, 30, 40, 50 the median is 30 and
  exactly the three rows with revenue 30, 40, 50 get 1. The median of finite values is the
  middle element of the sorted values, or the mean of the two middle elements.
\<close>

theorem is_high_value_median:
  "(has_aggregate_columns df \<longrightarrow>
      (\<exists>out self'. prepare_features now df self = (Inr out, self') \<and>
         (\<forall>r \<in> set (rows out).
            is_high_value r =
              (if num_ge (revenue_12m r) (median (map revenue_12m (rows df))) then Fin 1 else Fin 0) \<and>
            (\<forall>v m. revenue_12m r = Fin v \<and> median (map revenue_12m (rows df)) = Fin m \<longrightarrow>
               is_high_value r = (if m \<le> v then Fin 1 else Fin 0))))) \<and>
   median (map revenue_12m (rows revenue_batch)) = Fin 30 \<and>
   (\<exists>out self'. prepare_features now revenue_batch self = (Inr out, self') \<and>
      map revenue_12m (rows out) = [Fin 10, Fin 20, Fin 30, Fin 40, Fin 50] \<and>
      map is_high_value (rows out) = [Fin 0, Fin 0, Fin 1, Fin 1, Fin 1]) \<and>
   (\<forall>vs. vs \<noteq> [] \<longrightarrow>
      median (map Fin vs) =
        (if odd (length vs) then Fin (sort vs ! (length vs div 2))
         else Fin ((sort vs ! (length vs div 2 - 1) + sort vs ! (length vs div 2)) / 2)))"
proof (intro conjI impI)
  assume c: "has_aggregate_columns df"
  from prepare_featuresE [OF c, of now self] obtain out self' where
    p: "prepare_features now df self = (Inr out, self')" and
    r: "rows out = filter (\<lambda>r. \<not> isna (is_churned r))
          (map (derived (has_column ''last_order_date'' df) now (median (map revenue_12m (rows df)))) (rows df))"
    by blast
  have "is_high_value x =
          (if num_ge (revenue_12m x) (median (map revenue_12m (rows df))) then Fin 1 else Fin 0) \<and>
        (\<forall>v m. revenue_12m x = Fin v \<and> median (map revenue_12m (rows df)) = Fin m \<longrightarrow>
           is_high_value x = (if m \<le> v then Fin 1 else Fin 0))" if "x \<in> set (rows out)" for x
  proof -
    from that r obtain r0 where
      x: "x = derived (has_column ''last_order_date'' df) now (median (map revenue_12m (rows df))) r0"
      by auto
    show ?thesis by (simp add: x num_ge_def)
  qed
  with p show "\<exists>out self'. prepare_features now df self = (Inr out, self') \<and>
         (\<forall>r \<in> set (rows out).
            is_high_value r =
              (if num_ge (revenue_12m r) (median (map revenue_12m (rows df))) then Fin 1 else Fin 0) \<and>
            (\<forall>v m. revenue_12m r = Fin v \<and> median (map revenue_12m (rows df)) = Fin m \<longrightarrow>
               is_high_value r = (if m \<le> v then Fin 1 else Fin 0)))"
    by blast
next
  show m: "median (map revenue_12m (rows revenue_batch)) = Fin 30"
    by (simp add: revenue_batch_def median_def sort_num_def isna_def)
  from prepared_flags [OF has_aggregate_columns_batches(2), of now self] obtain out self' where
    p: "prepare_features now revenue_batch self = (Inr out, self')" and
    v: "map revenue_12m (rows out) =
          map revenue_12m (filter (\<lambda>r. \<not> isna (is_churned r)) (rows revenue_batch))" and
    h: "map is_high_value (rows out) =
          map (\<lambda>r. if num_ge (revenue_12m r) (median (map revenue_12m (rows revenue_batch))) then Fin 1 else Fin 0)
            (filter (\<lambda>r. \<not> isna (is_churned r)) (rows revenue_batch))"
    by blast
  have v': "map revenue_12m (rows out) = [Fin 10, Fin 20, Fin 30, Fin 40, Fin 50]"
    unfolding v by (simp add: revenue_batch_def isna_def)
  have h': "map is_high_value (rows out) = [Fin 0, Fin 0, Fin 1, Fin 1, Fin 1]"
    unfolding h m by (simp add: revenue_batch_def isna_def num_ge_def)
  show "\<exists>out self'. prepare_features now revenue_batch self = (Inr out, self') \<and>
      map revenue_12m (rows out) = [Fin 10, Fin 20, Fin 30, Fin 40, Fin 50] \<and>
      map is_high_value (rows out) = [Fin 0, Fin 0, Fin 1, Fin 1, Fin 1]"
    by (intro exI conjI) (rule p, rule v', rule h')
next
  show "\<forall>vs. vs \<noteq> [] \<longrightarrow>
      median (map Fin vs) =
        (if odd (length vs) then Fin (sort vs ! (length vs div 2))
         else Fin ((sort vs ! (length vs div 2 - 1) + sort vs ! (length vs div 2)) / 2))"
    by (simp add: median_finite Let_def)
qed

theorem is_high_value_median_witness:
  "has_aggregate_columns dated_batch \<and>
   median (map revenue_12m (rows dated_batch)) = Fin (115 / 2) \<and>
   (\<exists>out self'. prepare_features clock dated_batch (init :: (unit, unit) churn_model) = (Inr out, self') \<and>
      map revenue_12m (rows out) = [Fin 120, Fin 40, Fin 75, Fin 15, Fin 0] \<and>
      map is_high_value (rows out) = [Fin 1, Fin 0, Fin 1, Fin 0, Fin 0] \<and>
      (\<forall>r \<in> set (rows out).
         is_high_value r = (if num_ge (revenue_12m r) (Fin (115 / 2)) then Fin 1 else Fin 0)))"
proof -
  note c = has_aggregate_columns_batches(1)
  note m = median_dated_batch
  from is_high_value_median [of dated_batch clock "init :: (unit, unit) churn_model"] c
  obtain out self' where
    p: "prepare_features clock dated_batch (init :: (unit, unit) churn_model) = (Inr out, self')" and
    q: "\<forall>r \<in> set (rows out).
          is_high_value r =
            (if num_ge (revenue_12m r) (median (map revenue_12m (rows dated_batch))) then Fin 1 else Fin 0)"
    by blast
  from prepared_flags [OF c, of clock "init :: (unit, unit) churn_model"] obtain out2 self2 where
    p2: "prepare_features clock dated_batch (init :: (unit, unit) churn_model) = (Inr out2, self2)" and
    v: "map revenue_12m (rows out2) =
          map revenue_12m (filter (\<lambda>r. \<not> isna (is_churned r)) (rows dated_batch))" and
    h: "map is_high_value (rows out2) =
          map (\<lambda>r. if num_ge (revenue_12m r) (median (map revenue_12m (rows dated_batch))) then Fin 1 else Fin 0)
            (filter (\<lambda>r. \<not> isna (is_churned r)) (rows dated_batch))"
    by blast
  from p p2 have e: "out2 = out" by simp
  have v': "map revenue_12m (rows out2) = [Fin 120, Fin 40, Fin 75, Fin 15, Fin 0]"
    unfolding v by (simp add: dated_batch_def isna_def)
  have h': "map is_high_value (rows out2) = [Fin 1, Fin 0, Fin 1, Fin 0, Fin 0]"
    unfolding h m by (simp add: dated_batch_def isna_def num_ge_def)
  show ?thesis
  proof (intro conjI exI)
    show "has_aggregate_columns dated_batch" by (rule c)
    show "median (map revenue_12m (rows dated_batch)) = Fin (115 / 2)" by (rule m)
    show "prepare_features clock dated_batch (init :: (unit, unit) churn_model) = (Inr out, self')"
      by (rule p)
    show "map revenue_12m (rows out) = [Fin 120, Fin 40, Fin 75, Fin 15, Fin 0]"
      by (rule v' [unfolded e])
    show "map is_high_value (rows out) = [Fin 1, Fin 0, Fin 1, Fin 0, Fin 0]"
      by (rule h' [unfolded e])
    show "\<forall>r \<in> set (rows out).
         is_high_value r = (if num_ge (revenue_12m r) (Fin (115 / 2)) then Fin 1 else Fin 0)"
      by (rule q [unfolded m])
  qed
qed

subsection \<open>Average order value\<close>

text \<open>
  C7. In every row that \<^verbatim>\<open>prepare_features\<close> returns, \<^verbatim>\<open>avg_order_value\<close> and
  \<^verbatim>\<open>revenue_per_order\<close> hold the same value, \<^verbatim>\<open>revenue_12m / (order_count_12m + 1)\<close>;
  for an order count that is at least 0 the divisor is at least 1, and for a finite revenue
  the value is the finite quotient.
\<close>

theorem avg_order_value_revenue_per_order:
  assumes "has_aggregate_columns df"
  shows "\<exists>out self'. prepare_features now df self = (Inr out, self') \<and>
     (\<forall>r \<in> set (rows out).
        avg_order_value r = revenue_per_order r \<and>
        avg_order_value r = num_div (revenue_12m r) (num_add (order_count_12m r) (Fin 1)) \<and>
        (\<forall>n v. order_count_12m r = Fin n \<and> 0 \<le> n \<and> revenue_12m r = Fin v \<longrightarrow>
           1 \<le> n + 1 \<and> avg_order_value r = Fin (v / (n + 1)) \<and>
           revenue_per_order r = Fin (v / (n + 1))))"
proof -
  from prepare_featuresE [OF assms, of now self] obtain out self' where
    p: "prepare_features now df self = (Inr out, self')" and
    r: "rows out = filter (\<lambda>r. \<not> isna (is_churned r))
          (map (derived (has_column ''last_order_date'' df) now (median (map revenue_12m (rows df)))) (rows df))"
    by blast
  have "avg_order_value x = revenue_per_order x \<and>
        avg_order_value x = num_div (revenue_12m x) (num_add (order_count_12m x) (Fin 1)) \<and>
        (\<forall>n v. order_count_12m x = Fin n \<and> 0 \<le> n \<and> revenue_12m x = Fin v \<longrightarrow>
           1 \<le> n + 1 \<and> avg_order_value x = Fin (v / (n + 1)) \<and>
           revenue_per_order x = Fin (v / (n + 1)))" if "x \<in> set (rows out)" for x
  proof -
    from that r obtain r0 where
      x: "x = derived (has_column ''last_order_date'' df) now (median (map revenue_12m (rows df))) r0"
      by auto
    show ?thesis by (simp add: x)
  qed
  with p show ?thesis by blast
qed

theorem avg_order_value_revenue_per_order_witness:
  "has_aggregate_columns dated_batch \<and>
   (\<exists>out self'. prepare_features clock dated_batch (init :: (unit, unit) churn_model) = (Inr out, self') \<and>
      map avg_order_value (rows out) = [Fin 30, Fin 20, Fin 25, Fin (15 / 2), Fin 0] \<and>
      map revenue_per_order (rows out) = [Fin 30, Fin 20, Fin 25, Fin (15 / 2), Fin 0] \<and>
      (\<forall>r \<in> set (rows out). avg_order_value r = revenue_per_order r))"
proof -
  note c = has_aggregate_columns_batches(1)
  from avg_order_value_revenue_per_order [OF c, of clock "init :: (unit, unit) churn_model"]
  obtain out self' where
    p: "prepare_features clock dated_batch (init :: (unit, unit) churn_model) = (Inr out, self')" and
    q: "\<forall>r \<in> set (rows out). avg_order_value r = revenue_per_order r"
    by blast
  obtain out2 where
    p2: "prepare_features clock dated_batch (init :: (unit, unit) churn_model) =
           (Inr out2, if rows dated_batch = [] then init else init\<lparr>feature_names := feature_cols\<rparr>)" and
    r: "rows out2 = filter (\<lambda>r. \<not> isna (is_churned r))
          (map (derived True clock (median (map revenue_12m (rows dated_batch)))) (rows dated_batch))"
    unfolding dated_batch_def rows_table by (rule prepared_batch)
  from p p2 have e: "out2 = out" by simp
  have h: "map avg_order_value (rows out2) = [Fin 30, Fin 20, Fin 25, Fin (15 / 2), Fin 0]"
    "map revenue_per_order (rows out2) = [Fin 30, Fin 20, Fin 25, Fin (15 / 2), Fin 0]"
    unfolding r by (simp_all add: dated_batch_def isna_def)
  show ?thesis
  proof (intro conjI exI)
    show "has_aggregate_columns dated_batch" by (rule c)
    show "prepare_features clock dated_batch (init :: (unit, unit) churn_model) = (Inr out, self')"
      by (rule p)
    show "map avg_order_value (rows out) = [Fin 30, Fin 20, Fin 25, Fin (15 / 2), Fin 0]"
      by (rule h(1) [unfolded e])
    show "map revenue_per_order (rows out) = [Fin 30, Fin 20, Fin 25, Fin (15 / 2), Fin 0]"
      by (rule h(2) [unfolded e])
    show "\<forall>r \<in> set (rows out). avg_order_value r = revenue_per_order r"
      by (rule q)
  qed
qed

subsection \<open>Recency bucket\<close>

text \<open>
  C8. For a table with the columns of the aggregate, in every row that
  \<^verbatim>\<open>prepare_features\<close> returns \<^verbatim>\<open>recency_bucket\<close> is the label of the interval among
  \<open>(-1, 30]\<close>, \<open>(30, 60]\<close>, \<open>(60, 90]\<close>, \<open>(90, 999]\<close> that holds
  \<^verbatim>\<open>days_since_last_order\<close>, one of 1, 2, 3, 4 (never NaN); 0 days is in bucket 1 and
  more than 90 days is in bucket 4.
\<close>

theorem recency_bucket_bins:
  assumes "has_aggregate_columns df"
  shows "\<exists>out self'. prepare_features now df self = (Inr out, self') \<and>
     (\<forall>r \<in> set (rows out). \<exists>v. days_since_last_order r = Fin v \<and>
        recency_bucket r = cut [-1, 30, 60, 90, 999] [1, 2, 3, 4] (Fin v) \<and>
        recency_bucket r \<in> {Fin 1, Fin 2, Fin 3, Fin 4} \<and>
        (recency_bucket r = Fin 1 \<longleftrightarrow> -1 < v \<and> v \<le> 30) \<and>
        (recency_bucket r = Fin 2 \<longleftrightarrow> 30 < v \<and> v \<le> 60) \<and>
        (recency_bucket r = Fin 3 \<longleftrightarrow> 60 < v \<and> v \<le> 90) \<and>
        (recency_bucket r = Fin 4 \<longleftrightarrow> 90 < v \<and> v \<le> 999) \<and>
        (v = 0 \<longrightarrow> recency_bucket r = Fin 1) \<and>
        (90 < v \<longrightarrow> recency_bucket r = Fin 4))"
proof -
  from prepare_featuresE [OF assms, of now self] obtain out self' where
    p: "prepare_features now df self = (Inr out, self')" and
    r: "rows out = filter (\<lambda>r. \<not> isna (is_churned r))
          (map (derived (has_column ''last_order_date'' df) now (median (map revenue_12m (rows df)))) (rows df))"
    by blast
  have "\<exists>v. days_since_last_order x = Fin v \<and>
        recency_bucket x = cut [-1, 30, 60, 90, 999] [1, 2, 3, 4] (Fin v) \<and>
        recency_bucket x \<in> {Fin 1, Fin 2, Fin 3, Fin 4} \<and>
        (recency_bucket x = Fin 1 \<longleftrightarrow> -1 < v \<and> v \<le> 30) \<and>
        (recency_bucket x = Fin 2 \<longleftrightarrow> 30 < v \<and> v \<le> 60) \<and>
        (recency_bucket x = Fin 3 \<longleftrightarrow> 60 < v \<and> v \<le> 90) \<and>
        (recency_bucket x = Fin 4 \<longleftrightarrow> 90 < v \<and> v \<le> 999) \<and>
        (v = 0 \<longrightarrow> recency_bucket x = Fin 1) \<and>
        (90 < v \<longrightarrow> recency_bucket x = Fin 4)" if "x \<in> set (rows out)" for x
  proof -
    from that r obtain r0 where
      x: "x = derived (has_column ''last_order_date'' df) now (median (map revenue_12m (rows df))) r0"
      by auto
    from days_of_range [of "has_column ''last_order_date'' df" now r0] obtain v where
      v: "days_of (has_column ''last_order_date'' df) now r0 = Fin v" "0 \<le> v" "v \<le> 999" by blast
    have b: "recency_bucket x = cut [-1, 30, 60, 90, 999] [1, 2, 3, 4] (Fin v)"
      by (simp add: x v(1))
    have d: "days_since_last_order x = Fin v" by (simp add: x v(1))
    show ?thesis
      unfolding d b cut_recency [OF v(2) v(3)] using v(2) v(3) by (intro exI [of _ v]) simp
  qed
  with p show ?thesis by blast
qed

theorem recency_bucket_bins_witness:
  "has_aggregate_columns dated_batch \<and>
   (\<exists>out self'. prepare_features clock dated_batch (init :: (unit, unit) churn_model) = (Inr out, self') \<and>
      map days_since_last_order (rows out) = [Fin 5, Fin 95, Fin 0, Fin 999, Fin 999] \<and>
      map recency_bucket (rows out) = [Fin 1, Fin 4, Fin 1, Fin 4, Fin 4] \<and>
      (\<forall>r \<in> set (rows out). recency_bucket r \<in> {Fin 1, Fin 2, Fin 3, Fin 4}))"
proof -
  note c = has_aggregate_columns_batches(1)
  from recency_bucket_bins [OF c, of clock "init :: (unit, unit) churn_model"]
  obtain out self' where
    p: "prepare_features clock dated_batch (init :: (unit, unit) churn_model) = (Inr out, self')" and
    q: "\<forall>r \<in> set (rows out). recency_bucket r \<in> {Fin 1, Fin 2, Fin 3, Fin 4}"
    by blast
  obtain out2 where
    p2: "prepare_features clock dated_batch (init :: (unit, unit) churn_model) =
           (Inr out2, if rows dated_batch = [] then init else init\<lparr>feature_names := feature_cols\<rparr>)" and
    r: "rows out2 = filter (\<lambda>r. \<not> isna (is_churned r))
          (map (derived True clock (median (map revenue_12m (rows dated_batch)))) (rows dated_batch))"
    unfolding dated_batch_def rows_table by (rule prepared_batch)
  from p p2 have e: "out2 = out" by simp
  have h: "map days_since_last_order (rows out2) = [Fin 5, Fin 95, Fin 0, Fin 999, Fin 999]"
    "map recency_bucket (rows out2) = [Fin 1, Fin 4, Fin 1, Fin 4, Fin 4]"
    unfolding r
    by (simp_all add: dated_batch_def isna_def days_of_def fillna_def clock_def
        normalize_def day_ns_def)
  show ?thesis
  proof (intro conjI exI)
    show "has_aggregate_columns dated_batch" by (rule c)
    show "prepare_features clock dated_batch (init :: (unit, unit) churn_model) = (Inr out, self')"
      by (rule p)
    show "map days_since_last_order (rows out) = [Fin 5, Fin 95, Fin 0, Fin 999, Fin 999]"
      by (rule h(1) [unfolded e])
    show "map recency_bucket (rows out) = [Fin 1, Fin 4, Fin 1, Fin 4, Fin 4]"
      by (rule h(2) [unfolded e])
    show "\<forall>r \<in> set (rows out). recency_bucket r \<in> {Fin 1, Fin 2, Fin 3, Fin 4}"
      by (rule q)
  qed
qed

subsection \<open>Missing values are filled before the split\<close>

text \<open>
  C9. For a prepared table that is not empty, the matrix of line 244 holds 0 where the
  prepared table holds NaN and the cell of the prepared table elsewhere, so it has no NaN,
  and \<^verbatim>\<open>train_and_evaluate\<close> is the pipeline that hands this matrix and the labels to
  the split, the partitions of the split to the fit of lines 247--250, and its predictions
  to the evaluation. That fit hands the training partition to the scaler, the scaled
  training partition to the classifier, and the scaled test partition to the predictions.
  The split never receives a matrix with a NaN: a split that refuses such a matrix gives
  the same run. When the split returns rows of its input and the fitted scaler maps a
  matrix without NaN to a matrix without NaN, no library function receives a matrix with a
  NaN: a library that refuses every such matrix gives the same run.
\<close>

theorem feature_matrix_fillna:
  "(prepare_features now df self = (Inr prepared, s1) \<and> \<not> df_empty prepared \<longrightarrow>
      feature_matrix feature_cols prepared =
        map (\<lambda>r. map (\<lambda>c. if isna (cell c r) then Fin 0 else cell c r) feature_cols)
          (rows prepared) \<and>
      (\<forall>row \<in> set (feature_matrix feature_cols prepared). \<forall>x \<in> set row. \<not> isna x) \<and>
      train_and_evaluate sk now df self =
        (case sk_train_test_split sk (feature_matrix feature_cols prepared)
                (map is_churned (rows prepared)) of
           Inl e \<Rightarrow> (Inl e, s1)
         | Inr (X_train, X_test, y_train, y_test) \<Rightarrow>
             (case fit_and_score sk feature_cols X_train y_train X_test s1 of
                (Inl e, s2) \<Rightarrow> (Inl e, s2)
              | (Inr (y_pred, y_pred_proba), s2) \<Rightarrow>
                  (case evaluate sk y_test y_pred y_pred_proba of
                     Inl e \<Rightarrow> (Inl e, s2)
                   | Inr res \<Rightarrow> report_results res y_test y_pred_proba s2)))) \<and>
   fit_and_score sk names X_train y_train X_test self =
     (case sk_scaler_fit sk X_train of
        Inl e \<Rightarrow> (Inl e, self\<lparr>feature_names := names, scaler := Unfitted\<rparr>)
      | Inr p \<Rightarrow>
         (case sk_scaler_transform sk p X_train of
            Inl e \<Rightarrow> (Inl e, self\<lparr>feature_names := names, scaler := Fitted p\<rparr>)
          | Inr X_scaled \<Rightarrow>
             (case sk_logreg_fit sk X_scaled y_train of
                Inl e \<Rightarrow> (Inl e, self\<lparr>feature_names := names, scaler := Fitted p, model := Some Unfitted\<rparr>)
              | Inr clf \<Rightarrow>
                 (case sk_scaler_transform sk p X_test of
                    Inl e \<Rightarrow> (Inl e, self\<lparr>feature_names := names, scaler := Fitted p,
                                         model := Some (Fitted clf), trained := True\<rparr>)
                  | Inr X_test_scaled \<Rightarrow>
                     (case sk_predict sk clf X_test_scaled of
                        Inl e \<Rightarrow> (Inl e, self\<lparr>feature_names := names, scaler := Fitted p,
                                             model := Some (Fitted clf), trained := True\<rparr>)
                      | Inr y_pred \<Rightarrow>
                         (case sk_predict_proba sk clf X_test_scaled of
                            Inl e \<Rightarrow> (Inl e, self\<lparr>feature_names := names, scaler := Fitted p,
                                                 model := Some (Fitted clf), trained := True\<rparr>)
                          | Inr y_pred_proba \<Rightarrow>
                             (Inr (y_pred, y_pred_proba),
                              self\<lparr>feature_names := names, scaler := Fitted p,
                                   model := Some (Fitted clf), trained := True\<rparr>))))))) \<and>
   train_and_evaluate
     (sk\<lparr>sk_train_test_split := \<lambda>X y. if has_nan X then Inl err else sk_train_test_split sk X y\<rparr>)
     now df self = train_and_evaluate sk now df self \<and>
   ((\<forall>X y X_train X_test y_train y_test.
       sk_train_test_split sk X y = Inr (X_train, X_test, y_train, y_test) \<longrightarrow>
       set X_train \<subseteq> set X \<and> set X_test \<subseteq> set X) \<and>
    (\<forall>X p X' Xs.
       sk_scaler_fit sk X = Inr p \<and> \<not> has_nan X \<and> \<not> has_nan X' \<and>
       sk_scaler_transform sk p X' = Inr Xs \<longrightarrow> \<not> has_nan Xs) \<longrightarrow>
    train_and_evaluate (guard_nan err sk) now df self = train_and_evaluate sk now df self)"
proof (intro conjI impI)
  assume a: "prepare_features now df self = (Inr prepared, s1) \<and> \<not> df_empty prepared"
  then have p: "prepare_features now df self = (Inr prepared, s1)" and ne: "\<not> df_empty prepared"
    by simp_all
  show "feature_matrix feature_cols prepared =
        map (\<lambda>r. map (\<lambda>c. if isna (cell c r) then Fin 0 else cell c r) feature_cols)
          (rows prepared)"
    by (simp add: feature_matrix_def fillna_def)
  show "\<forall>row \<in> set (feature_matrix feature_cols prepared). \<forall>x \<in> set row. \<not> isna x"
    using feature_matrix_no_nan [of feature_cols prepared] by (simp add: has_nan_def list_ex_iff)
  show "train_and_evaluate sk now df self =
        (case sk_train_test_split sk (feature_matrix feature_cols prepared)
                (map is_churned (rows prepared)) of
           Inl e \<Rightarrow> (Inl e, s1)
         | Inr (X_train, X_test, y_train, y_test) \<Rightarrow>
             (case fit_and_score sk feature_cols X_train y_train X_test s1 of
                (Inl e, s2) \<Rightarrow> (Inl e, s2)
              | (Inr (y_pred, y_pred_proba), s2) \<Rightarrow>
                  (case evaluate sk y_test y_pred y_pred_proba of
                     Inl e \<Rightarrow> (Inl e, s2)
                   | Inr res \<Rightarrow> report_results res y_test y_pred_proba s2)))"
    by (rule train_and_evaluate_pipeline [OF p ne])
next
  show "fit_and_score sk names X_train y_train X_test self =
     (case sk_scaler_fit sk X_train of
        Inl e \<Rightarrow> (Inl e, self\<lparr>feature_names := names, scaler := Unfitted\<rparr>)
      | Inr p \<Rightarrow>
         (case sk_scaler_transform sk p X_train of
            Inl e \<Rightarrow> (Inl e, self\<lparr>feature_names := names, scaler := Fitted p\<rparr>)
          | Inr X_scaled \<Rightarrow>
             (case sk_logreg_fit sk X_scaled y_train of
                Inl e \<Rightarrow> (Inl e, self\<lparr>feature_names := names, scaler := Fitted p, model := Some Unfitted\<rparr>)
              | Inr clf \<Rightarrow>
                 (case sk_scaler_transform sk p X_test of
                    Inl e \<Rightarrow> (Inl e, self\<lparr>feature_names := names, scaler := Fitted p,
                                         model := Some (Fitted clf), trained := True\<rparr>)
                  | Inr X_test_scaled \<Rightarrow>
                     (case sk_predict sk clf X_test_scaled of
                        Inl e \<Rightarrow> (Inl e, self\<lparr>feature_names := names, scaler := Fitted p,
                                             model := Some (Fitted clf), trained := True\<rparr>)
                      | Inr y_pred \<Rightarrow>
                         (case sk_predict_proba sk clf X_test_scaled of
                            Inl e \<Rightarrow> (Inl e, self\<lparr>feature_names := names, scaler := Fitted p,
                                                 model := Some (Fitted clf), trained := True\<rparr>)
                          | Inr y_pred_proba \<Rightarrow>
                             (Inr (y_pred, y_pred_proba),
                              self\<lparr>feature_names := names, scaler := Fitted p,
                                   model := Some (Fitted clf), trained := True\<rparr>)))))))"
    by (rule fit_and_score_unfold)
next
  show "train_and_evaluate
     (sk\<lparr>sk_train_test_split := \<lambda>X y. if has_nan X then Inl err else sk_train_test_split sk X y\<rparr>)
     now df self = train_and_evaluate sk now df self"
    by (rule train_and_evaluate_guard_split)
next
  assume h: "(\<forall>X y X_train X_test y_train y_test.
       sk_train_test_split sk X y = Inr (X_train, X_test, y_train, y_test) \<longrightarrow>
       set X_train \<subseteq> set X \<and> set X_test \<subseteq> set X) \<and>
    (\<forall>X p X' Xs.
       sk_scaler_fit sk X = Inr p \<and> \<not> has_nan X \<and> \<not> has_nan X' \<and>
       sk_scaler_transform sk p X' = Inr Xs \<longrightarrow> \<not> has_nan Xs)"
  show "train_and_evaluate (guard_nan err sk) now df self = train_and_evaluate sk now df self"
    by (rule train_and_evaluate_guard_nan [OF h [THEN conjunct1] h [THEN conjunct2]])
qed

theorem feature_matrix_fillna_witness:
  "\<exists>prepared s1 res self'.
     prepare_features clock small_batch (init :: (float64 list, unit) churn_model) = (Inr prepared, s1) \<and>
     \<not> df_empty prepared \<and>
     map revenue_12m (rows prepared) =
       [Fin 10, Fin 70, NaN, Fin 20, Fin 30, Fin 40, Fin 50, Fin 60] \<and>
     feature_matrix feature_cols prepared = small_batch_X \<and>
     map (\<lambda>row. row ! 1) small_batch_X =
       [Fin 10, Fin 70, Fin 0, Fin 20, Fin 30, Fin 40, Fin 50, Fin 60] \<and>
     (\<forall>row \<in> set (feature_matrix feature_cols prepared). \<forall>x \<in> set row. \<not> isna x) \<and>
     sk_train_test_split toy_sklearn (feature_matrix feature_cols prepared)
       (map is_churned (rows prepared)) =
       Inr (drop 2 small_batch_X, take 2 small_batch_X,
            [Fin 0, Fin 0, Fin 0, Fin 0, Fin 0, Fin 1], [Fin 0, Fin 1]) \<and>
     train_and_evaluate toy_sklearn clock small_batch (init :: (float64 list, unit) churn_model) =
       (Inr (Some res), self') \<and>
     train_and_evaluate (guard_nan NotFittedError toy_sklearn) clock small_batch
       (init :: (float64 list, unit) churn_model) = (Inr (Some res), self')"
proof -
  from small_batch_run obtain prepared s1 mean self' where
    p: "prepare_features clock small_batch (init :: (float64 list, unit) churn_model) = (Inr prepared, s1)" and
    ne: "\<not> df_empty prepared" and
    v: "map revenue_12m (rows prepared) =
          [Fin 10, Fin 70, NaN, Fin 20, Fin 30, Fin 40, Fin 50, Fin 60]" and
    X0: "feature_matrix (select_feature_cols (feature_names s1) prepared) prepared = small_batch_X" and
    y: "map is_churned (rows prepared) = [Fin 0, Fin 1, Fin 0, Fin 0, Fin 0, Fin 0, Fin 0, Fin 1]" and
    sp: "sk_train_test_split toy_sklearn small_batch_X
       [Fin 0, Fin 1, Fin 0, Fin 0, Fin 0, Fin 0, Fin 0, Fin 1] =
       Inr (drop 2 small_batch_X, take 2 small_batch_X,
            [Fin 0, Fin 0, Fin 0, Fin 0, Fin 0, Fin 1], [Fin 0, Fin 1])" and
    run: "train_and_evaluate toy_sklearn clock small_batch (init :: (float64 list, unit) churn_model) =
       (Inr (Some \<lparr>accuracy = Fin 1, roc_auc = Fin (1 / 2), classification_report = ''report'',
                   confusion_matrix = [[1, 0], [0, 1]]\<rparr>), self')"
    by (elim exE conjE)
  have X: "feature_matrix feature_cols prepared = small_batch_X"
    using X0 by (simp add: select_feature_cols_nonempty [OF p ne])
  note T = feature_matrix_fillna [where sk = toy_sklearn and now = clock and df = small_batch
      and self = "init :: (float64 list, unit) churn_model" and prepared = prepared and ?s1.0 = s1
      and err = NotFittedError]
  from T [THEN conjunct1] p ne
  have a: "\<forall>row \<in> set (feature_matrix feature_cols prepared). \<forall>x \<in> set row. \<not> isna x"
    by blast
  have H1: "\<forall>X y X_train X_test y_train y_test.
       sk_train_test_split toy_sklearn X y = Inr (X_train, X_test, y_train, y_test) \<longrightarrow>
       set X_train \<subseteq> set X \<and> set X_test \<subseteq> set X"
    by (intro allI impI) (rule toy_split_selects_rows)
  have H2: "\<forall>X p X' Xs.
       sk_scaler_fit toy_sklearn X = Inr p \<and> \<not> has_nan X \<and> \<not> has_nan X' \<and>
       sk_scaler_transform toy_sklearn p X' = Inr Xs \<longrightarrow> \<not> has_nan Xs"
    by (intro allI impI) (elim conjE, rule toy_scaler_keeps_no_nan)
  have g: "train_and_evaluate (guard_nan NotFittedError toy_sklearn) clock small_batch
             (init :: (float64 list, unit) churn_model) =
           train_and_evaluate toy_sklearn clock small_batch init"
    by (rule T [THEN conjunct2, THEN conjunct2, THEN conjunct2, rule_format, OF conjI [OF H1 H2]])
  have c: "map (\<lambda>row. row ! 1) small_batch_X =
       [Fin 10, Fin 70, Fin 0, Fin 20, Fin 30, Fin 40, Fin 50, Fin 60]"
    by (simp add: small_batch_X_def)
  have sp': "sk_train_test_split toy_sklearn (feature_matrix feature_cols prepared)
       (map is_churned (rows prepared)) =
       Inr (drop 2 small_batch_X, take 2 small_batch_X,
            [Fin 0, Fin 0, Fin 0, Fin 0, Fin 0, Fin 1], [Fin 0, Fin 1])"
    unfolding X y by (rule sp)
  show ?thesis
    by (intro exI conjI) (rule p ne v X c a sp' run g [unfolded run])+
qed

subsection \<open>The median is taken before rows are dropped\<close>

text \<open>
  C10. \<^verbatim>\<open>prepare_features\<close> drops the rows without a label only after it has derived
  every column: the rows it returns are the labelled rows of the fully derived table, and
  their \<^verbatim>\<open>is_high_value\<close> is decided against the median of \<^verbatim>\<open>revenue_12m\<close> over all
  input rows, labelled or not. Two unlabelled rows with revenues 5 and 1 change the flag of
  the labelled row with revenue 10 from 0 to 1.
\<close>

theorem median_includes_unlabelled_rows:
  "(has_aggregate_columns df \<longrightarrow>
      (\<exists>out self'. prepare_features now df self = (Inr out, self') \<and>
         rows out = filter (\<lambda>r. \<not> isna (is_churned r)) (rows (derive_columns (derive_days now df))) \<and>
         map customer_id (rows out) =
           map customer_id (filter (\<lambda>r. \<not> isna (is_churned r)) (rows df)) \<and>
         map is_high_value (rows out) =
           map (\<lambda>r. if num_ge (revenue_12m r) (median (map revenue_12m (rows df))) then Fin 1 else Fin 0)
             (filter (\<lambda>r. \<not> isna (is_churned r)) (rows df)))) \<and>
   (\<exists>out self'. prepare_features now mixed_batch self = (Inr out, self') \<and>
      map customer_id (rows out) = [1, 2] \<and> map is_high_value (rows out) = [Fin 1, Fin 1]) \<and>
   (\<exists>out self'. prepare_features now labelled_batch self = (Inr out, self') \<and>
      map customer_id (rows out) = [1, 2] \<and> map is_high_value (rows out) = [Fin 0, Fin 1])"
proof (intro conjI impI)
  assume c: "has_aggregate_columns df"
  from prepared_flags [OF c, of now self]
  show "\<exists>out self'. prepare_features now df self = (Inr out, self') \<and>
         rows out = filter (\<lambda>r. \<not> isna (is_churned r)) (rows (derive_columns (derive_days now df))) \<and>
         map customer_id (rows out) =
           map customer_id (filter (\<lambda>r. \<not> isna (is_churned r)) (rows df)) \<and>
         map is_high_value (rows out) =
           map (\<lambda>r. if num_ge (revenue_12m r) (median (map revenue_12m (rows df))) then Fin 1 else Fin 0)
             (filter (\<lambda>r. \<not> isna (is_churned r)) (rows df))"
    by blast
next
  have m: "median (map revenue_12m (rows mixed_batch)) = Fin (15 / 2)"
    by (simp add: mixed_batch_def median_def sort_num_def isna_def)
  show "\<exists>out self'. prepare_features now mixed_batch self = (Inr out, self') \<and>
      map customer_id (rows out) = [1, 2] \<and> map is_high_value (rows out) = [Fin 1, Fin 1]"
  proof (rule flags_example [OF has_aggregate_columns_batches(3)])
    show "map customer_id (filter (\<lambda>r. \<not> isna (is_churned r)) (rows mixed_batch)) = [1, 2]"
      by (simp add: mixed_batch_def isna_def)
    show "map (\<lambda>r. if num_ge (revenue_12m r) (median (map revenue_12m (rows mixed_batch))) then Fin 1 else Fin 0)
           (filter (\<lambda>r. \<not> isna (is_churned r)) (rows mixed_batch)) = [Fin 1, Fin 1]"
      unfolding m by (simp add: mixed_batch_def isna_def num_ge_def)
  qed
next
  have m: "median (map revenue_12m (rows labelled_batch)) = Fin 15"
    by (simp add: labelled_batch_def median_def sort_num_def isna_def)
  show "\<exists>out self'. prepare_features now labelled_batch self = (Inr out, self') \<and>
      map customer_id (rows out) = [1, 2] \<and> map is_high_value (rows out) = [Fin 0, Fin 1]"
  proof (rule flags_example [OF has_aggregate_columns_batches(4)])
    show "map customer_id (filter (\<lambda>r. \<not> isna (is_churned r)) (rows labelled_batch)) = [1, 2]"
      by (simp add: labelled_batch_def isna_def)
    show "map (\<lambda>r. if num_ge (revenue_12m r) (median (map revenue_12m (rows labelled_batch))) then Fin 1 else Fin 0)
           (filter (\<lambda>r. \<not> isna (is_churned r)) (rows labelled_batch)) = [Fin 0, Fin 1]"
      unfolding m by (simp add: labelled_batch_def isna_def num_ge_def)
  qed
qed

theorem median_includes_unlabelled_rows_witness:
  "has_aggregate_columns dated_batch \<and>
   map customer_id (filter (\<lambda>r. isna (is_churned r)) (rows dated_batch)) = [6] \<and>
   median (map revenue_12m (rows dated_batch)) = Fin (115 / 2) \<and>
   median (map revenue_12m (filter (\<lambda>r. \<not> isna (is_churned r)) (rows dated_batch))) = Fin 40 \<and>
   (\<exists>out self'. prepare_features clock dated_batch (init :: (unit, unit) churn_model) = (Inr out, self') \<and>
      map customer_id (rows out) = [1, 2, 3, 4, 5] \<and>
      map revenue_12m (rows out) = [Fin 120, Fin 40, Fin 75, Fin 15, Fin 0] \<and>
      map is_high_value (rows out) = [Fin 1, Fin 0, Fin 1, Fin 0, Fin 0])"
proof -
  note c = has_aggregate_columns_batches(1)
  note m = median_dated_batch
  from median_includes_unlabelled_rows [of dated_batch clock "init :: (unit, unit) churn_model"] c
  obtain out self' where
    p: "prepare_features clock dated_batch (init :: (unit, unit) churn_model) = (Inr out, self')" and
    i: "map customer_id (rows out) =
          map customer_id (filter (\<lambda>r. \<not> isna (is_churned r)) (rows dated_batch))" and
    h: "map is_high_value (rows out) =
          map (\<lambda>r. if num_ge (revenue_12m r) (median (map revenue_12m (rows dated_batch))) then Fin 1 else Fin 0)
            (filter (\<lambda>r. \<not> isna (is_churned r)) (rows dated_batch))"
    by blast
  from prepared_flags [OF c, of clock "init :: (unit, unit) churn_model"] obtain out2 self2 where
    p2: "prepare_features clock dated_batch (init :: (unit, unit) churn_model) = (Inr out2, self2)" and
    v: "map revenue_12m (rows out2) =
          map revenue_12m (filter (\<lambda>r. \<not> isna (is_churned r)) (rows dated_batch))"
    by blast
  from p p2 have e: "out2 = out" by simp
  show ?thesis
  proof (intro conjI exI)
    show "has_aggregate_columns dated_batch" by (rule c)
    show "map customer_id (filter (\<lambda>r. isna (is_churned r)) (rows dated_batch)) = [6]"
      by (simp add: dated_batch_def isna_def)
    show "median (map revenue_12m (rows dated_batch)) = Fin (115 / 2)" by (rule m)
    show "median (map revenue_12m (filter (\<lambda>r. \<not> isna (is_churned r)) (rows dated_batch))) = Fin 40"
      by (simp add: dated_batch_def median_def sort_num_def isna_def)
    show "prepare_features clock dated_batch (init :: (unit, unit) churn_model) = (Inr out, self')"
      by (rule p)
    show "map customer_id (rows out) = [1, 2, 3, 4, 5]"
      unfolding i by (simp add: dated_batch_def isna_def)
    show "map revenue_12m (rows out) = [Fin 120, Fin 40, Fin 75, Fin 15, Fin 0]"
      unfolding v [unfolded e] by (simp add: dated_batch_def isna_def)
    show "map is_high_value (rows out) = [Fin 1, Fin 0, Fin 1, Fin 0, Fin 0]"
      unfolding h m by (simp add: dated_batch_def isna_def num_ge_def)
  qed
qed

end
